theory Spec2Isabelle
  imports Complex_Main "HOL-Library.List_Lexorder" "HOL-Library.Multiset"
begin

section \<open>Strings and numbers of the source language\<close>

text \<open>
  A string of the source is a sequence of UTF-16 code units; it is modelled as the list
  of its code units (integers), so that \<open>length\<close> is the source's \<open>.length\<close>, and
  \<open><\<close> and \<open>\<le>\<close> (the lexicographic order of lists) are the source's comparison
  of two strings. \<open>str\<close> turns an ASCII literal into such a string.

  A \<open>number\<close> that holds a monetary amount or an average is modelled as a rational:
  sums, products and quotients are exact. A \<open>number\<close> that can be \<open>NaN\<close> is an
  \<open>option\<close>, with \<open>None\<close> for \<open>NaN\<close>.

  An object used as a dictionary (a \<^verbatim>\<open>Record\<close> from strings to values) is
  modelled as an association list in insertion order. The runtime lists the keys that are
  array indices before the others; wherever the source walks over such an object whose
  keys can be array indices, it reads a length or a sum, which do not depend on the order.
  Keys that name a member of \<open>Object.prototype\<close> are outside the model.
\<close>

type_synonym jsstring = "int list"

definition str :: "string \<Rightarrow> jsstring" where
  "str s = map of_char s"

section \<open>Data model (types.ts)\<close>

datatype Channel = RC | WEB | VD | TV

fun channelText :: "Channel \<Rightarrow> jsstring" where
  "channelText RC = str ''RC''"
| "channelText WEB = str ''WEB''"
| "channelText VD = str ''VD''"
| "channelText TV = str ''TV''"

text \<open>The operation class \<open>'VD' | 'DV'\<close>: a sale or a return.\<close>

datatype OperClass = OperVD | OperDV

record SaleRecord =
  id_rec :: jsstring
  date :: jsstring
  region :: jsstring
  division :: jsstring
  sector :: jsstring
  salesRep :: jsstring
  channel :: Channel
  supplier :: jsstring
  cnpj :: jsstring
  companyName :: jsstring
  productCode :: jsstring
  productDesc :: jsstring
  amount :: rat
  quantity :: int
  orderId :: jsstring
  operClass :: OperClass
  paymentTerms :: jsstring
  networkName :: jsstring
  city :: "jsstring option"
  state :: "jsstring option"

record FilterState =
  division_f :: "jsstring list"
  region_f :: "jsstring list"
  sector_f :: "jsstring list"
  salesRep_f :: "jsstring list"
  channel_f :: "jsstring list"
  supplier_f :: "jsstring list"
  startMonth :: jsstring
  endMonth :: jsstring

section \<open>Filter logic\<close>

text \<open>\<open>record.date.substring(0, 7)\<close>\<close>

definition recordMonth :: "SaleRecord \<Rightarrow> jsstring" where
  "recordMonth r = take 7 (date r)"

definition inDateRange :: "FilterState \<Rightarrow> SaleRecord \<Rightarrow> bool" where
  "inDateRange filters r =
     (startMonth filters \<le> recordMonth r \<and> recordMonth r \<le> endMonth filters)"

definition matches :: "jsstring \<Rightarrow> jsstring list \<Rightarrow> bool" where
  "matches recordValue filterValues =
     (if filterValues = [] \<or> str ''all'' \<in> set filterValues then True
      else recordValue \<in> set filterValues)"

definition filterData :: "SaleRecord list \<Rightarrow> FilterState \<Rightarrow> SaleRecord list" where
  "filterData data filters =
     filter (\<lambda>r.
       matches (division r) (division_f filters) \<and>
       matches (region r) (region_f filters) \<and>
       matches (sector r) (sector_f filters) \<and>
       matches (salesRep r) (salesRep_f filters) \<and>
       matches (channelText (channel r)) (channel_f filters) \<and>
       matches (supplier r) (supplier_f filters) \<and>
       inDateRange filters r) data"

section \<open>Cascading options\<close>

text \<open>\<open>Array.from(new Set(xs))\<close>: the distinct elements, in order of first occurrence.\<close>

function uniq :: "'a list \<Rightarrow> 'a list" where
  "uniq [] = []"
| "uniq (x # xs) = x # uniq (filter (\<lambda>y. y \<noteq> x) xs)"
  by pat_completeness auto
termination
  by (relation "measure length") (auto simp: less_Suc_eq_le)





record CascadingOptions =
  divisions :: "jsstring list"
  regions :: "jsstring list"
  sectors :: "jsstring list"
  reps :: "jsstring list"
  channels :: "jsstring list"
  suppliers :: "jsstring list"






section \<open>String helpers of the runtime\<close>

text \<open>The white space and line terminators that \<open>trim\<close> and \<open>parseInt\<close> skip.\<close>

definition isSpace :: "int \<Rightarrow> bool" where
  "isSpace c = (c \<in> set [0x9, 0xA, 0xB, 0xC, 0xD, 0x20, 0xA0, 0x1680, 0x2028, 0x2029,
                         0x202F, 0x205F, 0x3000, 0xFEFF] \<or> (0x2000 \<le> c \<and> c \<le> 0x200A))"

definition trim :: "jsstring \<Rightarrow> jsstring" where
  "trim s = rev (dropWhile isSpace (rev (dropWhile isSpace s)))"

text \<open>\<open>\d\<close> of a regular expression without the unicode flag: an ASCII digit.\<close>

definition isDigit :: "int \<Rightarrow> bool" where
  "isDigit c = (48 \<le> c \<and> c \<le> 57)"

definition digitsValue :: "jsstring \<Rightarrow> int" where
  "digitsValue s = foldl (\<lambda>n c. 10 * n + (c - 48)) 0 s"

text \<open>
  \<open>s.split(sep)\<close> for a separator that matches exactly one code unit (a character or a
  character class): the pieces between the separators, empty pieces included.
\<close>

fun splitOn :: "(int \<Rightarrow> bool) \<Rightarrow> jsstring \<Rightarrow> jsstring list" where
  "splitOn sep [] = [[]]"
| "splitOn sep (c # cs) =
     (if sep c then [] # splitOn sep cs
      else (case splitOn sep cs of [] \<Rightarrow> [[c]] | w # ws \<Rightarrow> (c # w) # ws))"

text \<open>The character class \<open>[-\/]\<close>.\<close>

definition isDashOrSlash :: "int \<Rightarrow> bool" where
  "isDashOrSlash c = (c = 45 \<or> c = 47)"

text \<open>
  \<open>parseInt(s, 10)\<close>: leading white space, an optional sign, then the longest run of
  digits; \<open>NaN\<close> (\<open>None\<close>) when there is no digit. The value is the exact integer.
\<close>

definition parseInt :: "jsstring \<Rightarrow> int option" where
  "parseInt s =
     (let t = dropWhile isSpace s;
          neg = (t \<noteq> [] \<and> hd t = 45);
          u = (if t \<noteq> [] \<and> (hd t = 45 \<or> hd t = 43) then tl t else t);
          ds = takeWhile isDigit u
      in if ds = [] then None
         else Some (if neg then - digitsValue ds else digitsValue ds))"

text \<open>
  \<open>Number(s)\<close> on a component of a date: blank text is 0 and a run of digits is its
  value. The other numeric literals of the language (a sign, a fraction, an exponent, a
  radix prefix, \<open>Infinity\<close>) are not modelled: they are treated like text that is not a
  number, \<open>NaN\<close>.
\<close>

definition toNumber :: "jsstring \<Rightarrow> int option" where
  "toNumber s =
     (let t = trim s
      in if t = [] then Some 0
         else if list_all isDigit t then Some (digitsValue t)
         else None)"

section \<open>Calendar dates of the runtime\<close>

text \<open>
  \<open>new Date(year, month, day)\<close> is local midnight of a civil day; the model keeps the
  number of that day, counted from 1970-01-01, or \<open>None\<close> for an invalid date. The month
  is counted from 0 and may lie outside 0..11, the day may lie outside the month: both
  carry over. A year in 0..99 means 1900 + year. A date more than 100000000 days from
  1970-01-01 is invalid.
\<close>

definition daysFromCivil :: "int \<Rightarrow> int \<Rightarrow> int \<Rightarrow> int" where
  "daysFromCivil y m d =
     (let y' = (if m \<le> 2 then y - 1 else y);
          era = y' div 400;
          yoe = y' - era * 400;
          doy = (153 * (if m > 2 then m - 3 else m + 9) + 2) div 5 + d - 1;
          doe = yoe * 365 + yoe div 4 - yoe div 100 + doy
      in era * 146097 + doe - 719468)"

definition makeDay :: "int \<Rightarrow> int \<Rightarrow> int \<Rightarrow> int" where
  "makeDay year month day =
     daysFromCivil (year + month div 12) (month mod 12 + 1) 1 + (day - 1)"

definition newDate :: "int option \<Rightarrow> int option \<Rightarrow> int option \<Rightarrow> int option" where
  "newDate year month day =
     (case (year, month, day) of
        (Some y, Some m, Some d) \<Rightarrow>
          (let yr = (if 0 \<le> y \<and> y \<le> 99 then 1900 + y else y);
               t = makeDay yr m d
           in if \<bar>t\<bar> \<le> 100000000 then Some t else None)
      | _ \<Rightarrow> None)"

section \<open>KPI calculations\<close>

text \<open>The seven metrics; each is a \<open>number\<close>.\<close>

record KPIStats =
  totalRevenue :: rat
  positivacao :: rat
  totalOrders :: rat
  averageTicket :: rat
  skuPerPdv :: rat
  avgInstallments :: rat
  avgTerm :: rat

text \<open>
  A dictionary: \<open>map_of\<close> reads a key, \<open>assign\<close> writes one. A new key goes to the
  end; an old key keeps its place.
\<close>

fun assign :: "('k \<times> 'v) list \<Rightarrow> 'k \<Rightarrow> 'v \<Rightarrow> ('k \<times> 'v) list" where
  "assign [] k v = [(k, v)]"
| "assign ((k', v') # kvs) k v =
     (if k' = k then (k, v) # kvs else (k', v') # assign kvs k v)"

text \<open>\<open>set.add(x)\<close> on a \<open>Set\<close> kept as the list of its elements in insertion order.\<close>

definition setAdd :: "'a list \<Rightarrow> 'a \<Rightarrow> 'a list" where
  "setAdd xs x = (if x \<in> set xs then xs else xs @ [x])"

subsection \<open>1. Revenue\<close>

definition totalRevenueOf :: "SaleRecord list \<Rightarrow> rat" where
  "totalRevenueOf data = foldl (\<lambda>acc curr. acc + amount curr) 0 data"

subsection \<open>2. Active clients\<close>

definition clientNetRevenue :: "SaleRecord list \<Rightarrow> (jsstring \<times> rat) list" where
  "clientNetRevenue data =
     foldl (\<lambda>m r. assign m (cnpj r)
                    ((case map_of m (cnpj r) of None \<Rightarrow> 0 | Some v \<Rightarrow> v) + amount r))
       [] data"

definition activeClients :: "SaleRecord list \<Rightarrow> jsstring list" where
  "activeClients data = map fst (filter (\<lambda>(_, netVal). netVal > 0) (clientNetRevenue data))"

subsection \<open>3. Orders\<close>

definition sales :: "SaleRecord list \<Rightarrow> SaleRecord list" where
  "sales data = filter (\<lambda>r. operClass r = OperVD) data"

definition returns :: "SaleRecord list \<Rightarrow> SaleRecord list" where
  "returns data = filter (\<lambda>r. operClass r = OperDV) data"

definition totalOrdersOf :: "SaleRecord list \<Rightarrow> int" where
  "totalOrdersOf data =
     (let distinctOrdersVD = length (uniq (map orderId (sales data)));
          distinctOrdersDV = length (uniq (map orderId (returns data)))
      in max 0 (int distinctOrdersVD - int distinctOrdersDV))"

subsection \<open>5. Distinct products per active client\<close>

definition skuStep ::
  "(jsstring \<times> jsstring list \<times> jsstring list) list \<Rightarrow> SaleRecord
     \<Rightarrow> (jsstring \<times> jsstring list \<times> jsstring list) list" where
  "skuStep m r =
     (let m1 = (if map_of m (cnpj r) = None then assign m (cnpj r) ([], []) else m)
      in case map_of m1 (cnpj r) of
           None \<Rightarrow> m1
         | Some (vd, dv) \<Rightarrow>
             (case operClass r of
                OperVD \<Rightarrow> assign m1 (cnpj r) (setAdd vd (productCode r), dv)
              | OperDV \<Rightarrow> assign m1 (cnpj r) (vd, setAdd dv (productCode r))))"

definition clientSkuMap :: "SaleRecord list \<Rightarrow> (jsstring \<times> jsstring list \<times> jsstring list) list" where
  "clientSkuMap data = foldl skuStep [] data"

definition totalNetSkus :: "SaleRecord list \<Rightarrow> int" where
  "totalNetSkus data =
     foldl (\<lambda>total c.
        (case map_of (clientSkuMap data) c of
           None \<Rightarrow> total
         | Some (vd, dv) \<Rightarrow>
             (let vdCount = int (length vd); dvCount = int (length dv);
                  netSkus = max 0 (vdCount - dvCount)
              in total + netSkus)))
       0 (activeClients data)"

definition skuPerPdvOf :: "SaleRecord list \<Rightarrow> rat" where
  "skuPerPdvOf data =
     (let positivacao = length (activeClients data)
      in if positivacao > 0 then of_int (totalNetSkus data) / of_nat positivacao else 0)"

subsection \<open>6. Installments\<close>

text \<open>
  The matches of \<open>/(\d{2})\/(\d{2})\/(\d{4})/g\<close>, from left to right, each with its
  three groups; the search goes on after the end of a match.
\<close>

definition dateTokenAt :: "jsstring \<Rightarrow> (jsstring \<times> jsstring \<times> jsstring) option" where
  "dateTokenAt s =
     (if 10 \<le> length s \<and> list_all isDigit (take 2 s) \<and> s ! 2 = 47
         \<and> list_all isDigit (take 2 (drop 3 s)) \<and> s ! 5 = 47
         \<and> list_all isDigit (take 4 (drop 6 s))
      then Some (take 2 s, take 2 (drop 3 s), take 4 (drop 6 s))
      else None)"

function dateMatches :: "jsstring \<Rightarrow> (jsstring \<times> jsstring \<times> jsstring) list" where
  "dateMatches [] = []"
| "dateMatches (c # cs) =
     (case dateTokenAt (c # cs) of
        Some tok \<Rightarrow> tok # dateMatches (drop 9 cs)
      | None \<Rightarrow> dateMatches cs)"
  by pat_completeness auto
termination
  by (relation "measure length") (auto simp: less_Suc_eq_le)

definition installmentCount :: "jsstring \<Rightarrow> nat" where
  "installmentCount terms =
     (if dateMatches terms \<noteq> [] then length (dateMatches terms)
      else length (filter (\<lambda>s. length (trim s) > 0) (splitOn isDashOrSlash terms)))"

definition installmentTotals :: "SaleRecord list \<Rightarrow> rat \<times> rat" where
  "installmentTotals rows =
     foldl (\<lambda>(totalWeightedInstallments, totalSalesForInstallments) r.
        if paymentTerms r \<noteq> [] \<and> installmentCount (paymentTerms r) > 0
        then (totalWeightedInstallments + of_nat (installmentCount (paymentTerms r)) * amount r,
              totalSalesForInstallments + amount r)
        else (totalWeightedInstallments, totalSalesForInstallments))
       (0, 0) rows"

definition avgInstallmentsOf :: "SaleRecord list \<Rightarrow> rat" where
  "avgInstallmentsOf data =
     (case installmentTotals (sales data) of
        (totalWeightedInstallments, totalSalesForInstallments) \<Rightarrow>
          if totalSalesForInstallments > 0
          then totalWeightedInstallments / totalSalesForInstallments else 0)"

subsection \<open>7. Payment term\<close>

text \<open>
  The days between two dates, \<open>Math.round((due.getTime() - nfe.getTime()) / 86400000)\<close>:
  two local midnights are a whole number of days apart, up to a change of the zone's
  offset, which the rounding removes. \<open>NaN\<close> when the invoice date is invalid.
\<close>

definition nfeDate :: "SaleRecord \<Rightarrow> int option" where
  "nfeDate r =
     (case map toNumber (splitOn (\<lambda>c. c = 45) (date r)) of
        y # m # d # _ \<Rightarrow> newDate y (map_option (\<lambda>m. m - 1) m) d
      | _ \<Rightarrow> None)"

definition diffDays :: "int option \<Rightarrow> jsstring \<times> jsstring \<times> jsstring \<Rightarrow> int option" where
  "diffDays nfe tok =
     (case tok of (dd, mm, yyyy) \<Rightarrow>
        (let day = parseInt dd;
             month = map_option (\<lambda>m. m - 1) (parseInt mm);
             year = parseInt yyyy;
             dueDate = newDate year month day
         in case (dueDate, nfe) of
              (Some due, Some n) \<Rightarrow> Some (due - n)
            | _ \<Rightarrow> None))"

text \<open>The sum of numbers of which some may be \<open>NaN\<close>.\<close>

definition sumNaN :: "int option list \<Rightarrow> int option" where
  "sumNaN xs = foldl (\<lambda>acc x. case (acc, x) of (Some a, Some b) \<Rightarrow> Some (a + b) | _ \<Rightarrow> None)
                 (Some 0) xs"

text \<open>The day offsets of the second format: the numeric tokens in (0, 2000).\<close>

definition validDays :: "jsstring \<Rightarrow> int list" where
  "validDays terms =
     concat (map (\<lambda>day. case day of
                           None \<Rightarrow> []
                         | Some d \<Rightarrow> if d > 0 \<and> d < 2000 then [d] else [])
               (map parseInt (splitOn isDashOrSlash terms)))"

text \<open>The term of an order, computed from one of its rows: the \<open>else\<close> branch of the cache test.\<close>

definition orderTerm :: "SaleRecord \<Rightarrow> rat option" where
  "orderTerm r =
     (if dateMatches (paymentTerms r) \<noteq> [] then
        map_option (\<lambda>currentOrderTotalDays.
            of_int currentOrderTotalDays / of_nat (length (dateMatches (paymentTerms r))))
          (sumNaN (map (diffDays (nfeDate r)) (dateMatches (paymentTerms r))))
      else if validDays (paymentTerms r) \<noteq> [] then
        Some (of_int (sum_list (validDays (paymentTerms r)))
                / of_nat (length (validDays (paymentTerms r))))
      else Some 0)"

record TermState =
  orderTermCache :: "(jsstring \<times> rat option) list"
  totalWeightedDays :: rat
  totalSalesForTerm :: rat

definition termStep :: "TermState \<Rightarrow> SaleRecord \<Rightarrow> TermState" where
  "termStep s r =
     (if paymentTerms r \<noteq> [] \<and> date r \<noteq> [] then
        (let (avgDaysForOrder, cache) =
               (case map_of (orderTermCache s) (orderId r) of
                  Some cached \<Rightarrow> (cached, orderTermCache s)
                | None \<Rightarrow> (orderTerm r, assign (orderTermCache s) (orderId r) (orderTerm r)))
         in case avgDaysForOrder of
              Some days \<Rightarrow>
                if days \<ge> 0
                then \<lparr> orderTermCache = cache,
                       totalWeightedDays = totalWeightedDays s + days * amount r,
                       totalSalesForTerm = totalSalesForTerm s + amount r \<rparr>
                else s\<lparr>orderTermCache := cache\<rparr>
            | None \<Rightarrow> s\<lparr>orderTermCache := cache\<rparr>)
      else s)"

definition termTotals :: "SaleRecord list \<Rightarrow> TermState" where
  "termTotals rows =
     foldl termStep \<lparr> orderTermCache = [], totalWeightedDays = 0, totalSalesForTerm = 0 \<rparr> rows"

definition avgTermOf :: "SaleRecord list \<Rightarrow> rat" where
  "avgTermOf data =
     (let s = termTotals (sales data)
      in if totalSalesForTerm s > 0 then totalWeightedDays s / totalSalesForTerm s else 0)"

subsection \<open>The seven metrics\<close>

definition calculateStatsInternal :: "SaleRecord list \<Rightarrow> KPIStats" where
  "calculateStatsInternal data =
     (let totalRevenue = totalRevenueOf data;
          positivacao = length (activeClients data);
          totalOrders = totalOrdersOf data;
          averageTicket = (if totalOrders > 0 then totalRevenue / of_int totalOrders else 0)
      in \<lparr> totalRevenue = totalRevenue, positivacao = of_nat positivacao,
           totalOrders = of_int totalOrders,
           averageTicket = averageTicket, skuPerPdv = skuPerPdvOf data,
           avgInstallments = avgInstallmentsOf data, avgTerm = avgTermOf data \<rparr>)"

definition calculateKPIs :: "SaleRecord list \<Rightarrow> KPIStats" where
  "calculateKPIs data = calculateStatsInternal data"

section \<open>Notions used to state the properties of the metrics\<close>













section \<open>Sector pivot\<close>

text \<open>\<open>s.startsWith(p)\<close>\<close>

definition startsWith :: "jsstring \<Rightarrow> jsstring \<Rightarrow> bool" where
  "startsWith s p = (take (length p) s = p)"

text \<open>A key of \<open>KPIStats\<close>, and the read \<open>stats[key]\<close>.\<close>

datatype MetricKey =
  Key_totalRevenue | Key_positivacao | Key_totalOrders | Key_averageTicket
  | Key_skuPerPdv | Key_avgInstallments | Key_avgTerm

fun metric :: "MetricKey \<Rightarrow> KPIStats \<Rightarrow> rat" where
  "metric Key_totalRevenue s = totalRevenue s"
| "metric Key_positivacao s = positivacao s"
| "metric Key_totalOrders s = totalOrders s"
| "metric Key_averageTicket s = averageTicket s"
| "metric Key_skuPerPdv s = skuPerPdv s"
| "metric Key_avgInstallments s = avgInstallments s"
| "metric Key_avgTerm s = avgTerm s"

record PivotRow =
  sector_row :: jsstring
  months :: "(jsstring \<times> KPIStats) list"
  total :: KPIStats

text \<open>The pivot structure; its field \<open>rows\<close> is called \<open>pivotRows\<close> here.\<close>

record PivotData =
  pivotRows :: "PivotRow list"
  months_all :: "jsstring list"
  monthTotals :: "(jsstring \<times> KPIStats) list"
  grandTotal :: KPIStats

definition closedMonths :: "jsstring list" where
  "closedMonths = [str ''2025-08'', str ''2025-09'', str ''2025-10'']"

definition averageOfMonths :: "(jsstring \<times> KPIStats) list \<Rightarrow> (KPIStats \<Rightarrow> rat) \<Rightarrow> rat" where
  "averageOfMonths monthDataMap key =
     foldl (\<lambda>sum m. case map_of monthDataMap m of Some st \<Rightarrow> sum + key st | None \<Rightarrow> sum)
       0 closedMonths / 3"

definition calculateAverageOfMonths :: "(jsstring \<times> KPIStats) list \<Rightarrow> KPIStats" where
  "calculateAverageOfMonths monthDataMap =
     \<lparr> totalRevenue = averageOfMonths monthDataMap totalRevenue,
       positivacao = averageOfMonths monthDataMap positivacao,
       totalOrders = averageOfMonths monthDataMap totalOrders,
       averageTicket = averageOfMonths monthDataMap averageTicket,
       skuPerPdv = averageOfMonths monthDataMap skuPerPdv,
       avgInstallments = averageOfMonths monthDataMap avgInstallments,
       avgTerm = averageOfMonths monthDataMap avgTerm \<rparr>"

text \<open>The statistics of each month of a month list, over a record list.\<close>

definition statsByMonth :: "jsstring list \<Rightarrow> SaleRecord list \<Rightarrow> (jsstring \<times> KPIStats) list" where
  "statsByMonth ms records =
     foldl (\<lambda>acc m. assign acc m
              (calculateStatsInternal (filter (\<lambda>r. startsWith (date r) m) records)))
       [] ms"

definition getSectorPivotData :: "SaleRecord list \<Rightarrow> PivotData" where
  "getSectorPivotData data =
     (let months = sort (uniq (map (\<lambda>r. take 7 (date r)) data));
          sectors = sort (uniq (map sector data));
          monthTotals = statsByMonth months data;
          grandTotal = calculateAverageOfMonths monthTotals;
          rows = map (\<lambda>s.
                   (let sectorRecords = filter (\<lambda>r. sector r = s) data;
                        monthStats = statsByMonth months sectorRecords;
                        rowAverage = calculateAverageOfMonths monthStats
                    in \<lparr> sector_row = s, months = monthStats, total = rowAverage \<rparr>))
                 sectors
      in \<lparr> pivotRows = sort_key (\<lambda>row. - totalRevenue (total row)) rows,
           months_all = months, monthTotals = monthTotals, grandTotal = grandTotal \<rparr>)"

subsection \<open>The pivot table of one metric (App.tsx)\<close>

text \<open>The rows as displayed: sorted by the row average of the metric, descending.\<close>

definition sortedRows :: "PivotData \<Rightarrow> MetricKey \<Rightarrow> PivotRow list" where
  "sortedRows data dataKey = sort_key (\<lambda>row. - metric dataKey (total row)) (pivotRows data)"

definition isRatioMetric :: "MetricKey \<Rightarrow> bool" where
  "isRatioMetric dataKey =
     (dataKey \<in> set [Key_skuPerPdv, Key_averageTicket, Key_avgTerm, Key_avgInstallments])"

text \<open>The cell of a row and a month: \<open>row.months[mKey]?.[dataKey] || 0\<close>.\<close>

definition cell :: "MetricKey \<Rightarrow> jsstring \<Rightarrow> PivotRow \<Rightarrow> rat" where
  "cell dataKey mKey row =
     (case map_of (months row) mKey of Some st \<Rightarrow> metric dataKey st | None \<Rightarrow> 0)"

definition calculateColumnTotal :: "PivotData \<Rightarrow> MetricKey \<Rightarrow> jsstring \<Rightarrow> rat" where
  "calculateColumnTotal data dataKey mKey =
     (let valuesInColumn = map (cell dataKey mKey) (sortedRows data dataKey);
          sum = foldl (\<lambda>a b. a + b) 0 valuesInColumn;
          count = length (sortedRows data dataKey)
      in if count = 0 then 0
         else if isRatioMetric dataKey then sum / of_nat count else sum)"

section \<open>CSV parsing\<close>

text \<open>
  The rows that the CSV library hands over: each row maps a column label to its text.
  \<open>field row k\<close> is \<open>row[k]\<close>, with the empty string for a missing label, and
  \<open>orElse a b\<close> is \<open>a || b\<close> on texts: the empty string and a missing value are
  both falsy.
\<close>

type_synonym csvrow = "jsstring \<rightharpoonup> jsstring"

definition field :: "csvrow \<Rightarrow> jsstring \<Rightarrow> jsstring" where
  "field row k = (case row k of Some v \<Rightarrow> v | None \<Rightarrow> [])"

definition orElse :: "jsstring \<Rightarrow> jsstring \<Rightarrow> jsstring" where
  "orElse a b = (if a \<noteq> [] then a else b)"

text \<open>The decimal digits of an index, for \<open>`ROW-${index}`\<close>.\<close>

function showNat :: "nat \<Rightarrow> jsstring" where
  "showNat n = (if n < 10 then [48 + int n] else showNat (n div 10) @ [48 + int (n mod 10)])"
  by pat_completeness auto
termination
  by (relation "measure id") auto

declare showNat.simps [simp del]

subsection \<open>Amounts\<close>

text \<open>
  \<open>parseFloat\<close> on text made of digits, commas and dots only: the longest prefix of the
  form digits, optional dot, digits; \<open>NaN\<close> if it has no digit. The value is kept exact.
\<close>

definition parseFloat :: "jsstring \<Rightarrow> rat option" where
  "parseFloat s =
     (let whole = takeWhile isDigit s;
          rest = dropWhile isDigit s;
          frac = (case rest of c # cs \<Rightarrow> if c = 46 then takeWhile isDigit cs else [] | [] \<Rightarrow> [])
      in if whole = [] \<and> frac = [] then None
         else Some (of_int (digitsValue whole) + of_int (digitsValue frac) / 10 ^ length frac))"

text \<open>\<open>s.replace(',', '.')\<close>: the first comma becomes a dot.\<close>

fun commaToDot :: "jsstring \<Rightarrow> jsstring" where
  "commaToDot [] = []"
| "commaToDot (c # cs) = (if c = 44 then 46 # cs else c # commaToDot cs)"

text \<open>
  The currency marker and the white space that the source strips first are made of
  characters that the filter to digits, commas and dots removes as well.
\<close>

definition parseAmount :: "jsstring \<Rightarrow> rat" where
  "parseAmount val =
     (if val = [] then 0
      else
        (let str = trim val;
             isExplicitNegative = (45 \<in> set str);
             clean0 = filter (\<lambda>c. isDigit c \<or> c = 44 \<or> c = 46) str;
             clean = (if 44 \<in> set clean0 \<and> 46 \<in> set clean0
                        then commaToDot (filter (\<lambda>c. c \<noteq> 46) clean0)
                      else if 44 \<in> set clean0 then commaToDot clean0
                      else clean0)
         in case parseFloat clean of
              None \<Rightarrow> 0
            | Some num \<Rightarrow> if isExplicitNegative then - \<bar>num\<bar> else num))"

subsection \<open>Dates\<close>

text \<open>The shape \<open>/^\d{4}-\d{2}-\d{2}$/\<close>.\<close>

definition isIsoShape :: "jsstring \<Rightarrow> bool" where
  "isIsoShape s =
     (length s = 10 \<and> list_all isDigit (take 4 s) \<and> s ! 4 = 45
      \<and> list_all isDigit (take 2 (drop 5 s)) \<and> s ! 7 = 45
      \<and> list_all isDigit (drop 8 s))"

definition parseDate :: "jsstring \<Rightarrow> jsstring" where
  "parseDate val =
     (if val = [] then []
      else if isIsoShape val then val
      else (case splitOn (\<lambda>c. c = 47) val of
              [p0, p1, p2] \<Rightarrow> p2 @ [45] @ p1 @ [45] @ p0
            | _ \<Rightarrow> []))"

subsection \<open>Rows\<close>

definition dateStr :: "csvrow \<Rightarrow> jsstring" where
  "dateStr row = orElse (field row (str ''Data NFE'')) (orElse (field row (str ''Data'')) [])"

definition parseChannel :: "jsstring \<Rightarrow> Channel" where
  "parseChannel channelStr =
     (if channelStr = str ''RC'' then RC
      else if channelStr = str ''WEB'' then WEB
      else if channelStr = str ''VD'' then VD
      else if channelStr = str ''TV'' then TV
      else VD)"

text \<open>
  The body of the loop over the rows: the record of a row, or nothing when the date is
  empty. The labels with an accent are spelled by their code units.
\<close>

definition parseRow :: "nat \<Rightarrow> csvrow \<Rightarrow> SaleRecord option" where
  "parseRow index row =
     (let sector = orElse (field row (str ''Setor'')) (str ''N/A'');
          region = orElse (field row (str ''Regi'' @ [227] @ str ''o''))
                     (orElse (field row (str ''Regiao'')) (str ''N/A''));
          division = orElse (field row (str ''Divis'' @ [227] @ str ''o''))
                       (orElse (field row (str ''Divisao'')) (str ''N/A''));
          channelStr = orElse (field row (str ''Canal'')) (str ''N/A'');
          channel = parseChannel channelStr;
          amountStr = orElse (field row (str ''SOMA Valor''))
                        (orElse (field row (str ''Valor''))
                          (orElse (field row (str ''Faturamento'')) (str ''0'')));
          amount = parseAmount amountStr;
          qtyStr = orElse (field row (str ''SOMA Quantidade''))
                     (orElse (field row (str ''Quantidade'')) (str ''0''));
          quantity = (case parseInt qtyStr of Some q \<Rightarrow> q | None \<Rightarrow> 0);
          date = parseDate (dateStr row);
          cnpj = orElse (field row (str ''CNPJ''))
                   (orElse (field row (str ''Cliente'')) (str ''UNKNOWN-'' @ showNat index));
          companyName = orElse (field row (str ''Raz'' @ [227] @ str ''o Social''))
                          (orElse (field row (str ''Razao Social''))
                            (orElse (field row (str ''Nome'')) (str ''Cliente Desconhecido'')));
          productCode = orElse (field row (str ''C'' @ [243] @ str ''d. Produto''))
                          (orElse (field row (str ''Cod. Produto''))
                            (orElse (field row (str ''Produto'')) (str ''N/A'')));
          productDesc = orElse (field row (str ''Descri'' @ [231, 227] @ str ''o''))
                          (orElse (field row (str ''Descricao'')) (str ''Produto Desconhecido''));
          orderId = orElse (field row (str ''Num. Pedido''))
                      (orElse (field row (str ''Pedido'')) (str ''UNK-'' @ showNat index));
          operClass = (if row (str ''Classe Oper.'') = Some (str ''DV'')
                          \<or> row (str ''Classe Oper'') = Some (str ''DV'')
                       then OperDV else OperVD);
          paymentTerms = orElse (field row (str ''Prazos''))
                           (orElse (field row (str ''Cond. Pagto'')) []);
          networkName = orElse (field row (str ''Nome Rede A''))
                          (orElse (field row (str ''Nome Rede R/I''))
                            (orElse (field row (str ''Rede'')) (str ''Independente'')));
          supplier = orElse (field row (str ''Fornecedor'')) (str ''N/A'');
          salesRep = orElse (field row (str ''Representante da venda''))
                       (orElse (field row (str ''Representante'')) (str ''N/A''));
          city = orElse (field row (str ''Cidade''))
                   (orElse (field row (str ''Munic'' @ [237] @ str ''pio''))
                     (orElse (field row (str ''Municipio''))
                       (orElse (field row (str ''City'')) [])));
          state = orElse (field row (str ''UF''))
                    (orElse (field row (str ''Estado''))
                      (orElse (field row (str ''State'')) []))
      in if date \<noteq> [] then
           Some \<lparr> id_rec = str ''ROW-'' @ showNat index, date = date, region = region,
                  division = division, sector = sector, salesRep = salesRep,
                  channel = channel, supplier = supplier, cnpj = cnpj,
                  companyName = companyName, productCode = productCode,
                  productDesc = productDesc, amount = amount, quantity = quantity,
                  orderId = orderId, operClass = operClass, paymentTerms = paymentTerms,
                  networkName = networkName, city = Some city, state = Some state \<rparr>
         else None)"

text \<open>The records pushed by the loop, in the order of the rows.\<close>

fun parseRows :: "nat \<Rightarrow> csvrow list \<Rightarrow> SaleRecord list" where
  "parseRows index [] = []"
| "parseRows index (row # rows) =
     (case parseRow index row of
        Some record \<Rightarrow> record # parseRows (Suc index) rows
      | None \<Rightarrow> parseRows (Suc index) rows)"

text \<open>
  The final sort compares the times that the runtime reads from the date texts; what it
  does where a text is not a date of the runtime is not fixed by the language. It is a
  parameter here: the reordering \<open>sortByDate\<close>.
\<close>

definition parseCSV :: "(SaleRecord list \<Rightarrow> SaleRecord list) \<Rightarrow> csvrow list \<Rightarrow> SaleRecord list" where
  "parseCSV sortByDate rows = sortByDate (parseRows 0 rows)"

text \<open>The shape \<open>DD/MM/YYYY\<close>.\<close>

definition isDMYShape :: "jsstring \<Rightarrow> bool" where
  "isDMYShape s =
     (length s = 10 \<and> list_all isDigit (take 2 s) \<and> s ! 2 = 47
      \<and> list_all isDigit (take 2 (drop 3 s)) \<and> s ! 5 = 47
      \<and> list_all isDigit (drop 6 s))"

section \<open>Geo intelligence\<close>

subsection \<open>The coordinate list\<close>

text \<open>
  \<open>RAW_CITIES_CSV\<close> is one text of the form \<open>STATE,CITY,LAT,LNG|STATE,CITY,LAT,LNG|...\<close>.
  It is kept here as the list of its rows, that is of the pieces that
  \<open>RAW_CITIES_CSV.split('|')\<close> yields, in their order, and the list is written in ten
  parts.
\<close>

definition RAW_CITIES_CSV_1 :: "string list" where
  "RAW_CITIES_CSV_1 = [
    ''PR,ABATIA,-23.3049,-50.3133'',
    ''PR,ADRIANOPOLIS,-24.6606,-48.9922'',
    ''PR,AGUDOS DO SUL,-25.9899,-49.3343'',
    ''PR,ALMIRANTE TAMANDARE,-25.3188,-49.3037'',
    ''PR,ALTAMIRA DO PARANA,-24.7983,-52.7128'',
    ''PR,ALTO PARAISO,-26.1146,-52.7469'',
    ''PR,ALTO PARANA,-23.1312,-52.3189'',
    ''PR,ALTO PIQUIRI,-24.0224,-53.44'',
    ''PR,ALTONIA,-23.8759,-53.8958'',
    ''PR,ALVORADA DO SUL,-22.7813,-51.2297'',
    ''PR,AMAPORA,-23.0943,-52.7866'',
    ''PR,AMPERE,-25.9168,-53.4686'',
    ''PR,ANAHY,-24.6449,-53.1332'',
    ''PR,ANDIRA,-23.0533,-50.2304'',
    ''PR,ANGULO,-23.1946,-51.9154'',
    ''PR,ANTONINA,-25.4386,-48.7191'',
    ''PR,ANTONIO OLINTO,-25.9804,-50.1972'',
    ''PR,APUCARANA,-23.55,-51.4635'',
    ''PR,ARAPONGAS,-23.4153,-51.4259'',
    ''PR,ARAPOTI,-24.1548,-49.8285'',
    ''PR,ARAPUA,-24.3132,-51.7856'',
    ''PR,ARARUNA,-23.9315,-52.5021'',
    ''PR,ARAUCARIA,-25.5859,-49.4047'',
    ''PR,ARIRANHA DO IVAI,-24.3857,-51.5839'',
    ''PR,ASSAI,-23.3697,-50.8459'',
    ''PR,ASSIS CHATEAUBRIAND,-24.4168,-53.5213'',
    ''PR,ASTORGA,-23.2318,-51.6668'',
    ''PR,ATALAIA,-23.1517,-52.0551'',
    ''PR,BALSA NOVA,-25.5804,-49.6291'',
    ''PR,BANDEIRANTES,-23.1078,-50.3704'',
    ''PR,BARBOSA FERRAZ,-24.0334,-52.004'',
    ''PR,BARRA DO JACARE,-23.116,-50.1842'',
    ''PR,BARRACAO,-26.2502,-53.6324'',
    ''PR,BELA VISTA DA CAROBA,-25.8842,-53.6725'',
    ''PR,BELA VISTA DO PARAISO,-22.9937,-51.1927'',
    ''PR,BITURUNA,-26.1607,-51.5518'',
    ''PR,BOA ESPERANCA,-24.2467,-52.7876'',
    ''PR,BOA VENTURA DE SAO ROQUE,-24.8688,-51.6276'',
    ''PR,BOA VISTA DA APARECIDA,-25.4308,-53.4117'',
    ''PR,BOCAIUVA DO SUL,-25.2066,-49.1141'',
    ''PR,BOM SUCESSO,-23.7063,-51.7671'',
    ''PR,BOM SUCESSO DO SUL,-26.0731,-52.8353'',
    ''PR,BORRAZOPOLIS,-23.9366,-51.5875'',
    ''PR,BRAGANEY,-24.8173,-53.1218'',
    ''PR,BRASILANDIA DO SUL,-24.1978,-53.5275'',
    ''PR,CAFEARA,-22.789,-51.7142'',
    ''PR,CAFELANDIA,-24.6189,-53.3207'',
    ''PR,CAFEZAL DO SUL,-23.9005,-53.5124'',
    ''PR,CALIFORNIA,-23.6566,-51.3574'',
    ''PR,CAMBARA,-23.0423,-50.0753'',
    ''PR,CAMBE,-23.2766,-51.2798'',
    ''PR,CAMBIRA,-23.589,-51.5792'',
    ''PR,CAMPINA DA LAGOA,-24.5893,-52.7976'',
    ''PR,CAMPINA DO SIMAO,-25.0802,-51.8237'',
    ''PR,CAMPINA GRANDE DO SUL,-25.3044,-49.0551'',
    ''PR,CAMPO BONITO,-25.0294,-52.9939'',
    ''PR,CAMPO DO TENENTE,-25.98,-49.6844'',
    ''PR,CAMPO LARGO,-25.4525,-49.529'',
    ''PR,CAMPO MAGRO,-25.3687,-49.4501'',
    ''PR,CAMPO MOURAO,-24.0463,-52.378'',
    ''PR,CANDIDO DE ABREU,-24.5649,-51.3372'',
    ''PR,CANDOI,-25.5758,-52.0409'',
    ''PR,CANTAGALO,-25.3734,-52.1198'',
    ''PR,CAPANEMA,-25.6691,-53.8055'',
    ''PR,CAPITAO LEONIDAS MARQUES,-25.4816,-53.6112'',
    ''PR,CARAMBEI,-24.9152,-50.0986'',
    ''PR,CARLOPOLIS,-23.4269,-49.7235'',
    ''PR,CASCAVEL,-24.9573,-53.459'',
    ''PR,CASTRO,-24.7891,-50.0108'',
    ''PR,CATANDUVAS,-25.2044,-53.1548'',
    ''PR,CENTENARIO DO SUL,-22.8188,-51.5973'',
    ''PR,CERRO AZUL,-26.0891,-52.8691'',
    ''PR,CEU AZUL,-25.1489,-53.8415'',
    ''PR,CHOPINZINHO,-25.8515,-52.5173'',
    ''PR,CIANORTE,-23.6599,-52.6054'',
    ''PR,CIDADE GAUCHA,-23.3772,-52.9436'',
    ''PR,CLEVELANDIA,-26.4043,-52.3508'',
    ''PR,COLOMBO,-25.2925,-49.2262'',
    ''PR,COLORADO,-22.8374,-51.9743'',
    ''PR,CONGONHINHAS,-23.5493,-50.5569'',
    ''PR,CONSELHEIRO MAIRINCK,-23.623,-50.1707'',
    ''PR,CONTENDA,-25.6788,-49.535'',
    ''PR,CORBELIA,-24.7971,-53.3006'',
    ''PR,CORNELIO PROCOPIO,-23.1829,-50.6498'',
    ''PR,CORONEL DOMINGOS SOARES,-26.2277,-52.0356'',
    ''PR,CORONEL VIVIDA,-25.9767,-52.5641'',
    ''PR,CORUMBATAI DO SUL,-24.101,-52.1177'',
    ''PR,CRUZ MACHADO,-26.0166,-51.343'',
    ''PR,CRUZEIRO DO IGUACU,-25.6192,-53.1285'',
    ''PR,CRUZEIRO DO OESTE,-23.7799,-53.0774'',
    ''PR,CRUZEIRO DO SUL,-22.9624,-52.1622'',
    ''PR,CRUZMALTINA,-24.0132,-51.4563'',
    ''PR,CURITIBA,-25.4195,-49.2646'',
    ''PR,CURIUVA,-24.0362,-50.4576'',
    ''PR,DIAMANTE DO NORTE,-22.655,-52.8617'']"

definition RAW_CITIES_CSV_2 :: "string list" where
  "RAW_CITIES_CSV_2 = [
    ''PR,DIAMANTE DO OESTE,-24.9462,-54.103'',
    ''PR,DIAMANTE DO SUL,-25.035,-52.6768'',
    ''PR,DOIS VIZINHOS,-25.7407,-53.057'',
    ''PR,DOURADINA,-23.3807,-53.2918'',
    ''PR,DOUTOR ULYSSES,-24.5665,-49.4219'',
    ''PR,ENEAS MARQUES,-25.9445,-53.1659'',
    ''PR,ENGENHEIRO BELTRAO,-23.797,-52.2659'',
    ''PR,ENTRE RIOS DO OESTE,-24.7042,-54.2385'',
    ''PR,ESPERANCA NOVA,-23.7238,-53.811'',
    ''PR,ESPIGAO ALTO DO IGUACU,-25.4216,-52.8348'',
    ''PR,FAROL,-24.0958,-52.6217'',
    ''PR,FAXINAL,-24.0077,-51.3227'',
    ''PR,FAZENDA RIO GRANDE,-25.6624,-49.3073'',
    ''PR,FENIX,-23.9135,-51.9805'',
    ''PR,FIGUEIRA,-23.8455,-50.4031'',
    ''PR,FLOR DA SERRA DO SUL,-26.2523,-53.3092'',
    ''PR,FLORAI,-23.3178,-52.3029'',
    ''PR,FLORESTA,-23.6031,-52.0807'',
    ''PR,FLORESTOPOLIS,-22.8623,-51.3882'',
    ''PR,FLORIDA,-23.0847,-51.9546'',
    ''PR,FORMOSA DO OESTE,-24.2951,-53.3114'',
    ''PR,FOZ DO IGUACU,-25.5427,-54.5827'',
    ''PR,FOZ DO JORDAO,-25.7371,-52.1188'',
    ''PR,FRANCISCO ALVES,-24.0667,-53.8461'',
    ''PR,FRANCISCO BELTRAO,-26.0817,-53.0535'',
    ''PR,GENERAL CARNEIRO,-26.425,-51.3172'',
    ''PR,GODOY MOREIRA,-24.173,-51.9246'',
    ''PR,GOIOERE,-24.1835,-53.0248'',
    ''PR,GOIOXIM,-25.1927,-51.9911'',
    ''PR,GRANDES RIOS,-24.1466,-51.5094'',
    ''PR,GUAIRA,-24.085,-54.2573'',
    ''PR,GUAIRACA,-22.932,-52.6906'',
    ''PR,GUAMIRANGA,-25.1912,-50.8021'',
    ''PR,GUAPIRAMA,-23.5203,-50.0407'',
    ''PR,GUAPOREMA,-23.3402,-52.7786'',
    ''PR,GUARACI,-22.9694,-51.6504'',
    ''PR,GUARANIACU,-25.0968,-52.8755'',
    ''PR,GUARAPUAVA,-25.3902,-51.4623'',
    ''PR,GUARATUBA,-25.8817,-48.5752'',
    ''PR,HONORIO SERPA,-26.139,-52.3848'',
    ''PR,IBAITI,-23.8478,-50.1932'',
    ''PR,IBEMA,-25.1193,-53.0072'',
    ''PR,IBIPORA,-23.2659,-51.0522'',
    ''PR,ICARAIMA,-23.3944,-53.615'',
    ''PR,IGUARACU,-23.1949,-51.8256'',
    ''PR,IGUATU,-24.7153,-53.0827'',
    ''PR,IMBAU,-24.448,-50.7533'',
    ''PR,IMBITUVA,-25.2285,-50.5989'',
    ''PR,INACIO MARTINS,-25.5704,-51.0769'',
    ''PR,INAJA,-22.7509,-52.1995'',
    ''PR,IPIRANGA,-25.0238,-50.5794'',
    ''PR,IPORA,-24.0083,-53.706'',
    ''PR,IRATI,-25.4697,-50.6493'',
    ''PR,IRETAMA,-24.4253,-52.1012'',
    ''PR,ITAGUAJE,-22.6183,-51.9674'',
    ''PR,ITAIPULANDIA,-25.1366,-54.3001'',
    ''PR,ITAMBARACA,-23.0181,-50.4097'',
    ''PR,ITAMBE,-23.6601,-51.9912'',
    ''PR,ITAPEJARA DO OESTE,-25.9661,-52.8147'',
    ''PR,ITAPERUCU,-25.2193,-49.3454'',
    ''PR,IVAI,-25.0067,-50.857'',
    ''PR,IVAIPORA,-24.2485,-51.6754'',
    ''PR,IVATE,-23.4072,-53.3687'',
    ''PR,JABOTI,-23.7435,-50.0729'',
    ''PR,JACAREZINHO,-23.1591,-49.9739'',
    ''PR,JAGUAPITA,-23.1104,-51.5342'',
    ''PR,JAGUARIAIVA,-24.2439,-49.7066'',
    ''PR,JANDAIA DO SUL,-23.6011,-51.6448'',
    ''PR,JANIOPOLIS,-24.1401,-52.7784'',
    ''PR,JAPIRA,-23.8142,-50.1422'',
    ''PR,JAPURA,-23.4693,-52.5557'',
    ''PR,JARDIM ALEGRE,-24.1809,-51.6902'',
    ''PR,JARDIM OLINDA,-22.5523,-52.0503'',
    ''PR,JATAIZINHO,-23.2578,-50.9777'',
    ''PR,JESUITAS,-24.3839,-53.3849'',
    ''PR,JOAQUIM TAVORA,-23.4987,-49.909'',
    ''PR,JUNDIAI DO SUL,-23.4357,-50.2496'',
    ''PR,JURANDA,-24.4209,-52.8413'',
    ''PR,JUSSARA,-23.6219,-52.4693'',
    ''PR,KALORE,-23.8188,-51.6687'',
    ''PR,LAPA,-25.7671,-49.7168'',
    ''PR,LARANJAL,-24.8862,-52.47'',
    ''PR,LARANJEIRAS DO SUL,-25.4077,-52.4109'',
    ''PR,LEOPOLIS,-23.0818,-50.7511'',
    ''PR,LIDIANOPOLIS,-24.11,-51.6506'',
    ''PR,LINDOESTE,-25.2596,-53.5733'',
    ''PR,LOANDA,-22.9232,-53.1362'',
    ''PR,LOBATO,-23.0058,-51.9524'',
    ''PR,LONDRINA,-23.304,-51.1691'',
    ''PR,LUIZIANA,-24.2853,-52.269'',
    ''PR,LUNARDELLI,-24.0821,-51.7368'',
    ''PR,LUPIONOPOLIS,-22.755,-51.6601'',
    ''PR,MALLET,-25.8806,-50.8173'',
    ''PR,MAMBORE,-24.317,-52.5271'',
    ''PR,MANDAGUACU,-23.3458,-52.0944'']"

definition RAW_CITIES_CSV_3 :: "string list" where
  "RAW_CITIES_CSV_3 = [
    ''PR,MANDAGUARI,-23.5446,-51.671'',
    ''PR,MANDIRITUBA,-25.777,-49.3282'',
    ''PR,MANFRINOPOLIS,-26.1441,-53.3113'',
    ''PR,MANGUEIRINHA,-25.9421,-52.1743'',
    ''PR,MANOEL RIBAS,-24.5144,-51.6658'',
    ''PR,MARECHAL CANDIDO RONDON,-24.557,-54.0571'',
    ''PR,MARIA HELENA,-23.6158,-53.2053'',
    ''PR,MARIALVA,-23.4843,-51.7928'',
    ''PR,MARILANDIA DO SUL,-23.7425,-51.3137'',
    ''PR,MARILENA,-22.7336,-53.0402'',
    ''PR,MARILUZ,-24.0089,-53.1432'',
    ''PR,MARINGA,-23.4205,-51.9333'',
    ''PR,MARIOPOLIS,-26.355,-52.5532'',
    ''PR,MARIPA,-24.42,-53.8286'',
    ''PR,MARMELEIRO,-26.1472,-53.0267'',
    ''PR,MARQUINHO,-25.112,-52.2497'',
    ''PR,MARUMBI,-23.7058,-51.6404'',
    ''PR,MATELANDIA,-25.2496,-53.9935'',
    ''PR,MATINHOS,-25.8237,-48.549'',
    ''PR,MATO RICO,-24.6995,-52.1454'',
    ''PR,MAUA DA SERRA,-23.8988,-51.2277'',
    ''PR,MEDIANEIRA,-25.2977,-54.0943'',
    ''PR,MERCEDES,-24.4538,-54.1618'',
    ''PR,MISSAL,-25.0919,-54.2477'',
    ''PR,MOREIRA SALES,-24.0509,-53.0102'',
    ''PR,MORRETES,-25.4744,-48.8345'',
    ''PR,MUNHOZ DE MELLO,-23.1477,-51.7739'',
    ''PR,NOSSA SENHORA DAS GRACAS,-22.9129,-51.7978'',
    ''PR,NOVA AMERICA DA COLINA,-23.3308,-50.7168'',
    ''PR,NOVA AURORA,-24.5289,-53.2575'',
    ''PR,NOVA CANTU,-24.6723,-52.5661'',
    ''PR,NOVA ESPERANCA,-23.182,-52.2031'',
    ''PR,NOVA ESPERANCA DO SUDOESTE,-25.9004,-53.2618'',
    ''PR,NOVA FATIMA,-23.4324,-50.5665'',
    ''PR,NOVA LARANJEIRAS,-25.3054,-52.5447'',
    ''PR,NOVA LONDRINA,-22.7639,-52.9868'',
    ''PR,NOVA OLIMPIA,-23.4703,-53.0898'',
    ''PR,NOVA PRATA DO IGUACU,-25.6309,-53.3469'',
    ''PR,NOVA SANTA BARBARA,-23.5865,-50.7598'',
    ''PR,NOVA SANTA ROSA,-24.4693,-53.9552'',
    ''PR,NOVA TEBAS,-24.438,-51.9454'',
    ''PR,NOVO ITACOLOMI,-23.7631,-51.5079'',
    ''PR,ORTIGUEIRA,-24.2058,-50.9185'',
    ''PR,OURIZONA,-23.4053,-52.1964'',
    ''PR,PAICANDU,-23.4555,-52.046'',
    ''PR,PALMAS,-26.4839,-51.9888'',
    ''PR,PALMEIRA,-25.4257,-50.007'',
    ''PR,PALMITAL,-24.8853,-52.2029'',
    ''PR,PALOTINA,-24.2868,-53.8404'',
    ''PR,PARAISO DO NORTE,-23.2824,-52.6054'',
    ''PR,PARANACITY,-22.9297,-52.1549'',
    ''PR,PARANAGUA,-25.5161,-48.5225'',
    ''PR,PARANAPOEMA,-22.6412,-52.0905'',
    ''PR,PARANAVAI,-23.0816,-52.4617'',
    ''PR,PATO BRAGADO,-24.6271,-54.2265'',
    ''PR,PATO BRANCO,-26.2292,-52.6706'',
    ''PR,PAULA FREITAS,-26.2105,-50.931'',
    ''PR,PAULO FRONTIN,-26.0466,-50.8304'',
    ''PR,PEABIRU,-23.914,-52.3431'',
    ''PR,PEROBAL,-23.8949,-53.4098'',
    ''PR,PEROLA,-23.8039,-53.6834'',
    ''PR,PEROLA DO OESTE,-25.759,-53.8055'',
    ''PR,PIEN,-26.0965,-49.4336'',
    ''PR,PINHAIS,-25.4429,-49.1927'',
    ''PR,PINHALAO,-23.7982,-50.0536'',
    ''PR,PINHAO,-25.6944,-51.6536'',
    ''PR,PIRAI DO SUL,-24.5306,-49.9433'',
    ''PR,PIRAQUARA,-25.4422,-49.0624'',
    ''PR,PITANGA,-24.7588,-51.7596'',
    ''PR,PITANGUEIRAS,-23.2281,-51.5873'',
    ''PR,PLANALTINA DO PARANA,-23.0101,-52.9162'',
    ''PR,PLANALTO,-25.7211,-53.7642'',
    ''PR,PONTA GROSSA,-25.0916,-50.1668'',
    ''PR,PONTAL DO PARANA,-25.6735,-48.5111'',
    ''PR,PORECATU,-22.7537,-51.3795'',
    ''PR,PORTO AMAZONAS,-25.54,-49.8946'',
    ''PR,PORTO BARREIRO,-25.5477,-52.4067'',
    ''PR,PORTO RICO,-22.7747,-53.2677'',
    ''PR,PORTO VITORIA,-26.1674,-51.231'',
    ''PR,PRADO FERREIRA,-23.0357,-51.4429'',
    ''PR,PRANCHITA,-26.0209,-53.7397'',
    ''PR,PRESIDENTE CASTELO BRANCO,-23.2782,-52.1536'',
    ''PR,PRIMEIRO DE MAIO,-22.8517,-51.0293'',
    ''PR,PRUDENTOPOLIS,-25.2111,-50.9754'',
    ''PR,QUARTO CENTENARIO,-24.2775,-53.0759'',
    ''PR,QUATIGUA,-23.5671,-49.916'',
    ''PR,QUATRO BARRAS,-25.3673,-49.0763'',
    ''PR,QUATRO PONTES,-24.5752,-53.9759'',
    ''PR,QUEDAS DO IGUACU,-25.4492,-52.9102'',
    ''PR,QUERENCIA DO NORTE,-23.0838,-53.483'',
    ''PR,QUINTA DO SOL,-23.8533,-52.1309'',
    ''PR,QUITANDINHA,-25.8734,-49.4973'',
    ''PR,RAMILANDIA,-25.1195,-54.023'',
    ''PR,RANCHO ALEGRE,-23.0676,-50.9145'',
    ''PR,RANCHO ALEGRE D OESTE,-24.2778,-53.075'']"

definition RAW_CITIES_CSV_4 :: "string list" where
  "RAW_CITIES_CSV_4 = [
    ''PR,REALEZA,-25.7711,-53.526'',
    ''PR,REBOUCAS,-25.6232,-50.6877'',
    ''PR,RENASCENCA,-26.1588,-52.9703'',
    ''PR,RESERVA,-24.6492,-50.8466'',
    ''PR,RESERVA DO IGUACU,-25.8319,-52.0272'',
    ''PR,RIBEIRAO CLARO,-23.1941,-49.7597'',
    ''PR,RIBEIRAO DO PINHAL,-23.4091,-50.3601'',
    ''PR,RIO AZUL,-25.7306,-50.7985'',
    ''PR,RIO BOM,-23.7606,-51.4122'',
    ''PR,RIO BONITO DO IGUACU,-25.4874,-52.5292'',
    ''PR,RIO BRANCO DO IVAI,-24.3244,-51.3187'',
    ''PR,RIO BRANCO DO SUL,-25.1892,-49.3115'',
    ''PR,RIO NEGRO,-26.095,-49.7982'',
    ''PR,ROLANDIA,-23.3101,-51.3659'',
    ''PR,RONCADOR,-24.5958,-52.2716'',
    ''PR,RONDON,-23.412,-52.7659'',
    ''PR,ROSARIO DO IVAI,-24.2682,-51.272'',
    ''PR,SABAUDIA,-23.3155,-51.555'',
    ''PR,SALGADO FILHO,-26.1777,-53.3631'',
    ''PR,SALTO DO ITARARE,-23.6074,-49.6354'',
    ''PR,SALTO DO LONTRA,-25.7813,-53.3135'',
    ''PR,SANTA AMELIA,-23.2654,-50.4288'',
    ''PR,SANTA CECILIA DO PAVAO,-23.5201,-50.7835'',
    ''PR,SANTA CRUZ DE MONTE CASTELO,-22.9582,-53.2949'',
    ''PR,SANTA FE,-23.04,-51.808'',
    ''PR,SANTA HELENA,-24.8585,-54.336'',
    ''PR,SANTA ISABEL DO IVAI,-23.0025,-53.1989'',
    ''PR,SANTA IZABEL DO OESTE,-25.8217,-53.4801'',
    ''PR,SANTA LUCIA,-25.4104,-53.5638'',
    ''PR,SANTA MARIA DO OESTE,-24.9377,-51.8696'',
    ''PR,SANTA MARIANA,-23.1465,-50.5167'',
    ''PR,SANTA MONICA,-23.108,-53.1103'',
    ''PR,SANTA TEREZA DO OESTE,-25.0543,-53.6274'',
    ''PR,SANTA TEREZINHA DE ITAIPU,-25.4391,-54.402'',
    ''PR,SANTANA DO ITARARE,-23.7587,-49.6293'',
    ''PR,SANTO ANTONIO DA PLATINA,-23.2959,-50.0815'',
    ''PR,SANTO ANTONIO DO CAIUA,-22.7351,-52.344'',
    ''PR,SANTO ANTONIO DO PARAISO,-23.4969,-50.6455'',
    ''PR,SANTO ANTONIO DO SUDOESTE,-26.0737,-53.7251'',
    ''PR,SANTO INACIO,-22.6957,-51.7969'',
    ''PR,SAO CARLOS DO IVAI,-23.3158,-52.4761'',
    ''PR,SAO JERONIMO DA SERRA,-23.7218,-50.7475'',
    ''PR,SAO JOAO,-25.8214,-52.7252'',
    ''PR,SAO JOAO DO CAIUA,-22.8535,-52.3411'',
    ''PR,SAO JOAO DO IVAI,-23.9833,-51.8215'',
    ''PR,SAO JOAO DO TRIUNFO,-25.683,-50.2949'',
    ''PR,SAO JORGE D OESTE,-25.4389,-53.5269'',
    ''PR,SAO JORGE DO IVAI,-23.4336,-52.2929'',
    ''PR,SAO JORGE DO PATROCINIO,-23.7647,-53.8823'',
    ''PR,SAO JOSE DA BOA VISTA,-23.9122,-49.6577'',
    ''PR,SAO JOSE DOS PINHAIS,-25.5313,-49.2031'',
    ''PR,SAO MATEUS DO SUL,-25.8677,-50.384'',
    ''PR,SAO MIGUEL DO IGUACU,-25.3492,-54.2405'',
    ''PR,SAO PEDRO DO IGUACU,-24.9373,-53.8521'',
    ''PR,SAO PEDRO DO IVAI,-23.8634,-51.8568'',
    ''PR,SAO SEBASTIAO DA AMOREIRA,-23.4656,-50.7625'',
    ''PR,SAPOPEMA,-23.9078,-50.5801'',
    ''PR,SARANDI,-23.4441,-51.876'',
    ''PR,SAUDADE DO IGUACU,-25.6917,-52.6184'',
    ''PR,SENGES,-24.1129,-49.4616'',
    ''PR,SERRANOPOLIS DO IGUACU,-25.3799,-54.0518'',
    ''PR,SERTANEJA,-23.0361,-50.8317'',
    ''PR,SERTANOPOLIS,-23.0571,-51.0399'',
    ''PR,SIQUEIRA CAMPOS,-23.6875,-49.8304'',
    ''PR,SULINA,-25.7066,-52.7299'',
    ''PR,TAMARANA,-23.7204,-51.0991'',
    ''PR,TAMBOARA,-23.2036,-52.4743'',
    ''PR,TAPEJARA,-23.7315,-52.8735'',
    ''PR,TAPIRA,-23.3193,-53.0684'',
    ''PR,TEIXEIRA SOARES,-25.3701,-50.4571'',
    ''PR,TELEMACO BORBA,-24.3245,-50.6176'',
    ''PR,TERRA BOA,-23.7683,-52.447'',
    ''PR,TERRA RICA,-22.7111,-52.6188'',
    ''PR,TERRA ROXA,-24.1575,-54.0988'',
    ''PR,TIBAGI,-24.5153,-50.4176'',
    ''PR,TIJUCAS DO SUL,-25.9311,-49.195'',
    ''PR,TOLEDO,-24.7246,-53.7412'',
    ''PR,TOMAZINA,-23.7796,-49.9499'',
    ''PR,TRES BARRAS DO PARANA,-25.4185,-53.1833'',
    ''PR,TUNAS DO PARANA,-24.9731,-49.0879'',
    ''PR,TUNEIRAS DO OESTE,-23.8648,-52.8769'',
    ''PR,TUPASSI,-24.5879,-53.5105'',
    ''PR,TURVO,-25.0437,-51.5282'',
    ''PR,UBIRATA,-24.5393,-52.9865'',
    ''PR,UMUARAMA,-23.7656,-53.3201'',
    ''PR,UNIAO DA VITORIA,-26.2273,-51.0873'',
    ''PR,UNIFLOR,-23.0868,-52.1573'',
    ''PR,URAI,-23.2,-50.7939'',
    ''PR,VENTANIA,-24.2458,-50.2376'',
    ''PR,VERA CRUZ DO OESTE,-25.0577,-53.8771'',
    ''PR,VERE,-25.8772,-52.9051'',
    ''PR,VIRMOND,-25.3829,-52.1987'',
    ''PR,VITORINO,-26.2683,-52.7843'',
    ''PR,WENCESLAU BRAZ,-23.8742,-49.8032'',
    ''PR,XAMBRE,-23.7364,-53.4884'']"

definition RAW_CITIES_CSV_5 :: "string list" where
  "RAW_CITIES_CSV_5 = [
    ''RS,ACEGUA,-31.8665,-54.1615'',
    ''RS,AGUDO,-29.6447,-53.2515'',
    ''RS,AJURICABA,-28.2342,-53.7757'',
    ''RS,ALECRIM,-27.6579,-54.7649'',
    ''RS,ALEGRETE,-29.7902,-55.7949'',
    ''RS,ALEGRIA,-27.8345,-54.0557'',
    ''RS,ALPESTRE,-27.2502,-53.0341'',
    ''RS,ALTO FELIZ,-29.3919,-51.3123'',
    ''RS,ALVORADA,-29.9914,-51.0809'',
    ''RS,AMARAL FERRADOR,-30.8756,-52.2509'',
    ''RS,AMETISTA DO SUL,-27.3607,-53.183'',
    ''RS,ANTA GORDA,-28.9698,-52.0102'',
    ''RS,ANTONIO PRADO,-28.8565,-51.2883'',
    ''RS,ARAMBARE,-30.9092,-51.5046'',
    ''RS,ARARICA,-29.6168,-50.9291'',
    ''RS,ARATIBA,-27.3978,-52.2975'',
    ''RS,ARROIO DO MEIO,-29.4014,-51.9557'',
    ''RS,ARROIO DO SAL,-29.5439,-49.8895'',
    ''RS,ARROIO DO TIGRE,-29.3348,-53.0966'',
    ''RS,ARROIO DOS RATOS,-30.0875,-51.7275'',
    ''RS,ARVOREZINHA,-28.8737,-52.1781'',
    ''RS,AUGUSTO PESTANA,-28.5172,-53.9883'',
    ''RS,AUREA,-27.6936,-52.0505'',
    ''RS,BAGE,-31.3297,-54.0999'',
    ''RS,BALNEARIO PINHAL,-30.2419,-50.2337'',
    ''RS,BARAO,-29.3725,-51.4949'',
    ''RS,BARAO DE COTEGIPE,-27.6208,-52.3798'',
    ''RS,BARAO DO TRIUNFO,-30.3891,-51.7384'',
    ''RS,BARRA DO GUARITA,-27.1927,-53.7109'',
    ''RS,BARRA DO QUARAI,-30.2029,-57.5497'',
    ''RS,BARRA DO RIBEIRO,-30.2939,-51.3014'',
    ''RS,BARRA FUNDA,-27.9205,-53.0391'',
    ''RS,BARROS CASSAL,-29.0947,-52.5836'',
    ''RS,BENTO GONCALVES,-29.1662,-51.5165'',
    ''RS,BOA VISTA DAS MISSOES,-27.6671,-53.3102'',
    ''RS,BOA VISTA DO BURICA,-27.6693,-54.1082'',
    ''RS,BOM PRINCIPIO,-29.4856,-51.3548'',
    ''RS,BOM RETIRO DO SUL,-29.6071,-51.9456'',
    ''RS,BOQUEIRAO DO LEAO,-29.3046,-52.4284'',
    ''RS,BOSSOROCA,-28.7291,-54.9035'',
    ''RS,BRAGA,-27.6173,-53.7405'',
    ''RS,BUTIA,-30.1179,-51.9601'',
    ''RS,CACAPAVA DO SUL,-30.5144,-53.4827'',
    ''RS,CACEQUI,-29.8883,-54.822'',
    ''RS,CACHOEIRA DO SUL,-30.033,-52.8928'',
    ''RS,CACHOEIRINHA,-29.9472,-51.1016'',
    ''RS,CACIQUE DOBLE,-27.767,-51.6597'',
    ''RS,CAIBATE,-28.2905,-54.6454'',
    ''RS,CAICARA,-27.2791,-53.4257'',
    ''RS,CAMAQUA,-30.8489,-51.8043'',
    ''RS,CAMARGO,-28.588,-52.2003'',
    ''RS,CAMBARA DO SUL,-29.0474,-50.1465'',
    ''RS,CAMPESTRE DA SERRA,-28.7926,-51.0941'',
    ''RS,CAMPINAS DO SUL,-27.7174,-52.6248'',
    ''RS,CAMPO BOM,-29.6747,-51.0606'',
    ''RS,CAMPO NOVO,-27.6792,-53.8052'',
    ''RS,CAMPOS BORGES,-28.8871,-53.0008'',
    ''RS,CANDELARIA,-29.6684,-52.7895'',
    ''RS,CANDIDO GODOI,-27.9515,-54.7517'',
    ''RS,CANDIOTA,-31.5516,-53.6773'',
    ''RS,CANELA,-29.356,-50.8119'',
    ''RS,CANGUCU,-31.396,-52.6783'',
    ''RS,CANOAS,-29.9128,-51.1857'',
    ''RS,CAPAO BONITO DO SUL,-28.1254,-51.3961'',
    ''RS,CAPAO DO LEAO,-31.7565,-52.4889'',
    ''RS,CAPITAO,-29.2674,-51.9853'',
    ''RS,CARAA,-29.7869,-50.4316'',
    ''RS,CARLOS BARBOSA,-29.2969,-51.5028'',
    ''RS,CATUIPE,-28.2554,-54.0132'',
    ''RS,CAXIAS DO SUL,-29.1629,-51.1792'',
    ''RS,CENTENARIO,-27.7615,-51.9984'',
    ''RS,CERRO BRANCO,-29.657,-52.9406'',
    ''RS,CERRO GRANDE,-27.6106,-53.1672'',
    ''RS,CERRO GRANDE DO SUL,-30.5905,-51.7418'',
    ''RS,CERRO LARGO,-28.1463,-54.7428'',
    ''RS,CHAPADA,-28.0559,-53.0665'',
    ''RS,CHARQUEADAS,-29.9625,-51.6289'',
    ''RS,CHIAPETTA,-27.923,-53.9419'',
    ''RS,CHUI,-33.6866,-53.4594'',
    ''RS,CHUVISCA,-30.7504,-51.9737'',
    ''RS,CIDREIRA,-30.1604,-50.2337'',
    ''RS,COLORADO,-28.5258,-52.9928'',
    ''RS,CONDOR,-28.2075,-53.4905'',
    ''RS,CONSTANTINA,-27.732,-52.9938'',
    ''RS,COQUEIRO BAIXO,-29.1802,-52.0942'',
    ''RS,CORONEL BARROS,-28.3921,-54.0686'',
    ''RS,CORONEL BICACO,-27.7197,-53.7022'',
    ''RS,COTIPORA,-28.9891,-51.6971'',
    ''RS,CRISSIUMAL,-27.4999,-54.0994'',
    ''RS,CRISTAL DO SUL,-27.452,-53.2422'',
    ''RS,CRUZ ALTA,-28.645,-53.6048'',
    ''RS,CRUZEIRO DO SUL,-29.5148,-51.9928'',
    ''RS,DOIS IRMAOS,-29.5836,-51.0898'',
    ''RS,DOIS IRMAOS DAS MISSOES,-27.6621,-53.5304'',
    ''RS,DOIS LAJEADOS,-28.983,-51.8396'']"

definition RAW_CITIES_CSV_6 :: "string list" where
  "RAW_CITIES_CSV_6 = [
    ''RS,DOM FELICIANO,-30.7004,-52.1026'',
    ''RS,DOM PEDRITO,-30.9756,-54.6694'',
    ''RS,DOM PEDRO DE ALCANTARA,-29.3639,-49.853'',
    ''RS,DOUTOR MAURICIO CARDOSO,-27.5103,-54.3577'',
    ''RS,ELDORADO DO SUL,-30.0847,-51.6187'',
    ''RS,ENCANTADO,-29.2351,-51.8703'',
    ''RS,ENCRUZILHADA DO SUL,-30.543,-52.5204'',
    ''RS,ENTRE IJUIS,-28.3686,-54.2686'',
    ''RS,EREBANGO,-27.8544,-52.3005'',
    ''RS,ERECHIM,-27.6364,-52.2697'',
    ''RS,ERNESTINA,-28.4977,-52.5836'',
    ''RS,ERVAL GRANDE,-27.3926,-52.574'',
    ''RS,ERVAL SECO,-27.5443,-53.5005'',
    ''RS,ESPERANCA DO SUL,-27.3603,-53.9891'',
    ''RS,ESPUMOSO,-28.7286,-52.8461'',
    ''RS,ESTACAO,-27.9135,-52.2635'',
    ''RS,ESTANCIA VELHA,-29.6535,-51.1843'',
    ''RS,ESTEIO,-29.852,-51.1841'',
    ''RS,ESTRELA,-29.5002,-51.9495'',
    ''RS,EUGENIO DE CASTRO,-28.5315,-54.1506'',
    ''RS,FARROUPILHA,-29.2227,-51.3419'',
    ''RS,FAXINAL DO SOTURNO,-29.5788,-53.4484'',
    ''RS,FELIZ,-29.4527,-51.3032'',
    ''RS,FLORES DA CUNHA,-29.0261,-51.1875'',
    ''RS,FREDERICO WESTPHALEN,-27.3586,-53.3958'',
    ''RS,GARIBALDI,-29.259,-51.5352'',
    ''RS,GAURAMA,-27.5856,-52.0915'',
    ''RS,GENERAL CAMARA,-29.9032,-51.7612'',
    ''RS,GETULIO VARGAS,-27.8911,-52.2294'',
    ''RS,GIRUA,-28.0297,-54.3517'',
    ''RS,GLORINHA,-29.8798,-50.7734'',
    ''RS,GRAMADO,-29.3734,-50.8762'',
    ''RS,GRAVATAI,-29.9413,-50.9869'',
    ''RS,GUABIJU,-28.5421,-51.6948'',
    ''RS,GUAIBA,-30.1086,-51.3233'',
    ''RS,GUAPORE,-28.8399,-51.8895'',
    ''RS,GUARANI DAS MISSOES,-28.1491,-54.5629'',
    ''RS,HERVEIRAS,-29.4552,-52.6553'',
    ''RS,HORIZONTINA,-27.6282,-54.3053'',
    ''RS,HUMAITA,-27.5691,-53.9695'',
    ''RS,IBIACA,-28.0566,-51.8599'',
    ''RS,IBIRAPUITA,-28.6247,-52.5158'',
    ''RS,IBIRUBA,-28.6302,-53.0961'',
    ''RS,IGREJINHA,-29.5693,-50.7919'',
    ''RS,IJUI,-28.388,-53.92'',
    ''RS,ILOPOLIS,-28.9282,-52.1258'',
    ''RS,IMBE,-29.9753,-50.1281'',
    ''RS,IMIGRANTE,-29.3508,-51.7748'',
    ''RS,INDEPENDENCIA,-27.8354,-54.1886'',
    ''RS,IPIRANGA DO SUL,-27.9404,-52.4271'',
    ''RS,IRAI,-27.1951,-53.2543'',
    ''RS,ITAQUI,-29.1311,-56.5515'',
    ''RS,ITATI,-29.4974,-50.1016'',
    ''RS,ITATIBA DO SUL,-27.3846,-52.4538'',
    ''RS,IVOTI,-29.5995,-51.1533'',
    ''RS,JABOTICABA,-27.6347,-53.2762'',
    ''RS,JACUTINGA,-27.7291,-52.5372'',
    ''RS,JAGUARAO,-32.5604,-53.377'',
    ''RS,JAGUARI,-29.4936,-54.703'',
    ''RS,JAQUIRANA,-28.8811,-50.3637'',
    ''RS,JOIA,-28.6435,-54.1141'',
    ''RS,JULIO DE CASTILHOS,-29.2299,-53.6772'',
    ''RS,LAGOA VERMELHA,-28.2093,-51.5248'',
    ''RS,LAGOAO,-29.2348,-52.7997'',
    ''RS,LAJEADO,-29.4591,-51.9644'',
    ''RS,LAJEADO DO BUGRE,-27.6913,-53.1818'',
    ''RS,LAVRAS DO SUL,-30.8071,-53.8931'',
    ''RS,LINDOLFO COLLOR,-29.5859,-51.2141'',
    ''RS,LINHA NOVA,-29.4679,-51.2003'',
    ''RS,MACAMBARA,-29.1445,-56.0674'',
    ''RS,MACHADINHO,-27.5667,-51.6668'',
    ''RS,MAMPITUBA,-29.2136,-49.9311'',
    ''RS,MANOEL VIANA,-29.5859,-55.4841'',
    ''RS,MAQUINE,-29.6798,-50.2079'',
    ''RS,MARAU,-28.4498,-52.1986'',
    ''RS,MARCELINO RAMOS,-27.4676,-51.9095'',
    ''RS,MARIANA PIMENTEL,-30.353,-51.5803'',
    ''RS,MARIANO MORO,-27.3568,-52.1467'',
    ''RS,MARQUES DE SOUZA,-29.3311,-52.0973'',
    ''RS,MATO LEITAO,-29.5285,-52.1278'',
    ''RS,MAXIMILIANO DE ALMEIDA,-27.6325,-51.802'',
    ''RS,MINAS DO LEAO,-30.1346,-52.0423'',
    ''RS,MIRAGUAI,-27.497,-53.6891'',
    ''RS,MONTENEGRO,-29.6824,-51.4679'',
    ''RS,MORRO REUTER,-29.5379,-51.0811'',
    ''RS,MOSTARDAS,-31.1054,-50.9167'',
    ''RS,MUCUM,-29.163,-51.8714'',
    ''RS,NAO ME TOQUE,-28.4548,-52.8182'',
    ''RS,NONOAI,-27.3689,-52.7756'',
    ''RS,NOVA ALVORADA,-28.6822,-52.1631'',
    ''RS,NOVA BASSANO,-28.7291,-51.7072'',
    ''RS,NOVA BOA VISTA,-27.9926,-52.9784'',
    ''RS,NOVA BRESCIA,-29.2182,-52.0319'',
    ''RS,NOVA CANDELARIA,-27.6137,-54.1074'',
    ''RS,NOVA ESPERANCA DO SUL,-29.4066,-54.8293'']"

definition RAW_CITIES_CSV_7 :: "string list" where
  "RAW_CITIES_CSV_7 = [
    ''RS,NOVA HARTZ,-29.5808,-50.9051'',
    ''RS,NOVA PALMA,-29.471,-53.4689'',
    ''RS,NOVA PETROPOLIS,-29.3741,-51.1136'',
    ''RS,NOVA PRATA,-28.7799,-51.6113'',
    ''RS,NOVA ROMA DO SUL,-28.9882,-51.4095'',
    ''RS,NOVA SANTA RITA,-29.8525,-51.2837'',
    ''RS,NOVO BARREIRO,-27.9077,-53.1103'',
    ''RS,NOVO CABRAIS,-29.7338,-52.9489'',
    ''RS,NOVO HAMBURGO,-29.6875,-51.1328'',
    ''RS,NOVO TIRADENTES,-27.5649,-53.1837'',
    ''RS,OSORIO,-29.8881,-50.2667'',
    ''RS,PALMARES DO SUL,-30.2535,-50.5103'',
    ''RS,PALMEIRA DAS MISSOES,-27.9007,-53.3134'',
    ''RS,PALMITINHO,-27.3596,-53.558'',
    ''RS,PANAMBI,-28.2833,-53.5023'',
    ''RS,PANTANO GRANDE,-30.1902,-52.3729'',
    ''RS,PARAI,-28.5964,-51.7896'',
    ''RS,PARAISO DO SUL,-29.6717,-53.144'',
    ''RS,PAROBE,-29.6243,-50.8312'',
    ''RS,PASSO DO SOBRADO,-29.748,-52.2748'',
    ''RS,PASSO FUNDO,-28.2576,-52.4091'',
    ''RS,PAVERAMA,-29.5486,-51.7339'',
    ''RS,PEDRO OSORIO,-31.8642,-52.8184'',
    ''RS,PEJUCARA,-28.4283,-53.6579'',
    ''RS,PELOTAS,-31.7649,-52.3371'',
    ''RS,PICADA CAFE,-29.4464,-51.1367'',
    ''RS,PINHAL,-27.508,-53.2082'',
    ''RS,PINHEIRO MACHADO,-31.5794,-53.3798'',
    ''RS,PINTO BANDEIRA,-29.0975,-51.4503'',
    ''RS,PIRATINI,-31.4473,-53.0973'',
    ''RS,PLANALTO,-27.3297,-53.0575'',
    ''RS,POCO DAS ANTAS,-29.4481,-51.6719'',
    ''RS,PORTAO,-29.7015,-51.2429'',
    ''RS,PORTO ALEGRE,-30.0318,-51.2065'',
    ''RS,PORTO LUCENA,-27.8569,-55.01'',
    ''RS,PORTO MAUA,-27.5796,-54.6657'',
    ''RS,PORTO XAVIER,-27.9082,-55.1379'',
    ''RS,PRESIDENTE LUCENA,-29.5175,-51.1798'',
    ''RS,PUTINGA,-29.0045,-52.1569'',
    ''RS,QUARAI,-30.384,-56.4483'',
    ''RS,QUINZE DE NOVEMBRO,-28.7466,-53.1011'',
    ''RS,REDENTORA,-27.664,-53.6407'',
    ''RS,RELVADO,-29.1164,-52.0778'',
    ''RS,RESTINGA SECA,-29.8188,-53.3807'',
    ''RS,RIO DOS INDIOS,-27.2973,-52.8417'',
    ''RS,RIO GRANDE,-32.0349,-52.1071'',
    ''RS,RIO PARDO,-29.988,-52.3711'',
    ''RS,RIOZINHO,-29.639,-50.4488'',
    ''RS,RODEIO BONITO,-27.4742,-53.1706'',
    ''RS,ROLANTE,-29.6462,-50.5819'',
    ''RS,RONDA ALTA,-27.7758,-52.8056'',
    ''RS,ROQUE GONZALES,-28.1297,-55.0266'',
    ''RS,ROSARIO DO SUL,-30.2515,-54.9221'',
    ''RS,SAGRADA FAMILIA,-27.7085,-53.1351'',
    ''RS,SALDANHA MARINHO,-28.3941,-53.097'',
    ''RS,SALTO DO JACUI,-29.0951,-53.2133'',
    ''RS,SALVADOR DAS MISSOES,-28.1233,-54.8373'',
    ''RS,SALVADOR DO SUL,-29.4386,-51.5077'',
    ''RS,SANANDUVA,-27.947,-51.8079'',
    ''RS,SANTA BARBARA DO SUL,-28.3653,-53.251'',
    ''RS,SANTA CLARA DO SUL,-29.4747,-52.0843'',
    ''RS,SANTA CRUZ DO SUL,-29.722,-52.4343'',
    ''RS,SANTA MARIA,-29.6868,-53.8149'',
    ''RS,SANTA MARIA DO HERVAL,-29.4902,-50.9919'',
    ''RS,SANTA ROSA,-27.8702,-54.4796'',
    ''RS,SANTA VITORIA DO PALMAR,-33.525,-53.3717'',
    ''RS,SANTANA DA BOA VISTA,-30.8697,-53.11'',
    ''RS,SANTANA DO LIVRAMENTO,-30.8773,-55.5392'',
    ''RS,SANTIAGO,-29.1897,-54.8666'',
    ''RS,SANTO ANGELO,-28.3001,-54.2668'',
    ''RS,SANTO ANTONIO DA PATRULHA,-29.8268,-50.5175'',
    ''RS,SANTO ANTONIO DAS MISSOES,-28.514,-55.2251'',
    ''RS,SANTO ANTONIO DO PLANALTO,-28.403,-52.6992'',
    ''RS,SANTO AUGUSTO,-27.8526,-53.7776'',
    ''RS,SANTO CRISTO,-27.8263,-54.662'',
    ''RS,SAO BORJA,-28.6578,-56.0036'',
    ''RS,SAO FRANCISCO DE ASSIS,-29.5547,-55.1253'',
    ''RS,SAO FRANCISCO DE PAULA,-29.4404,-50.5828'',
    ''RS,SAO GABRIEL,-30.3337,-54.3217'',
    ''RS,SAO JERONIMO,-29.9716,-51.7251'',
    ''RS,SAO JOAO DA URTIGA,-27.8195,-51.8257'',
    ''RS,SAO JOAO DO POLESINE,-29.6194,-53.4439'',
    ''RS,SAO JORGE,-28.4984,-51.7064'',
    ''RS,SAO JOSE DAS MISSOES,-27.7789,-53.1226'',
    ''RS,SAO JOSE DO HERVAL,-29.052,-52.295'',
    ''RS,SAO JOSE DO HORTENCIO,-29.528,-51.245'',
    ''RS,SAO JOSE DO INHACORA,-27.7251,-54.1275'',
    ''RS,SAO JOSE DO NORTE,-32.0151,-52.0331'',
    ''RS,SAO JOSE DO OURO,-27.7707,-51.5966'',
    ''RS,SAO LEOPOLDO,-29.7545,-51.1498'',
    ''RS,SAO LOURENCO DO SUL,-31.3564,-51.9715'',
    ''RS,SAO LUIZ GONZAGA,-28.412,-54.9559'',
    ''RS,SAO MARCOS,-28.9677,-51.0696'',
    ''RS,SAO MARTINHO,-27.7112,-53.9699'',
    ''RS,SAO MIGUEL DAS MISSOES,-28.556,-54.5559'']"

definition RAW_CITIES_CSV_8 :: "string list" where
  "RAW_CITIES_CSV_8 = [
    ''RS,SAO NICOLAU,-28.1834,-55.2654'',
    ''RS,SAO PEDRO DA SERRA,-29.4193,-51.5134'',
    ''RS,SAO PEDRO DAS MISSOES,-27.7706,-53.2513'',
    ''RS,SAO PEDRO DO BUTIA,-28.1243,-54.8926'',
    ''RS,SAO PEDRO DO SUL,-29.6202,-54.1855'',
    ''RS,SAO SEPE,-30.1643,-53.5603'',
    ''RS,SAO VENDELINO,-29.3729,-51.3675'',
    ''RS,SAPIRANGA,-29.6349,-51.0064'',
    ''RS,SAPUCAIA DO SUL,-29.8276,-51.145'',
    ''RS,SARANDI,-27.942,-52.9231'',
    ''RS,SEBERI,-27.4829,-53.4026'',
    ''RS,SEDE NOVA,-27.6367,-53.9493'',
    ''RS,SELBACH,-28.6294,-52.9498'',
    ''RS,SENTINELA DO SUL,-30.6107,-51.5862'',
    ''RS,SERAFINA CORREA,-28.7126,-51.9352'',
    ''RS,SERTAO,-27.9798,-52.2588'',
    ''RS,SERTAO DE SANTANA,-30.4958,-51.5833'',
    ''RS,SERTAO SANTANA,-30.4562,-51.6017'',
    ''RS,SEVERIANO DE ALMEIDA,-27.4362,-52.1217'',
    ''RS,SINIMBU,-29.5357,-52.5304'',
    ''RS,SOLEDADE,-28.8306,-52.5131'',
    ''RS,TAPEJARA,-28.0652,-52.0097'',
    ''RS,TAPERA,-28.6277,-52.8613'',
    ''RS,TAPES,-30.6683,-51.3991'',
    ''RS,TAQUARA,-29.6505,-50.7753'',
    ''RS,TAQUARI,-29.7943,-51.8653'',
    ''RS,TAQUARUCU DO SUL,-27.4005,-53.4702'',
    ''RS,TAVARES,-31.2843,-51.088'',
    ''RS,TENENTE PORTELA,-27.3711,-53.7585'',
    ''RS,TERRA DE AREIA,-29.5788,-50.0644'',
    ''RS,TEUTONIA,-29.4482,-51.8044'',
    ''RS,TIO HUGO,-28.5712,-52.5955'',
    ''RS,TIRADENTES DO SUL,-27.4022,-54.0814'',
    ''RS,TORRES,-29.3334,-49.7333'',
    ''RS,TRAMANDAI,-29.9841,-50.1322'',
    ''RS,TRAVESSEIRO,-29.2977,-52.0532'',
    ''RS,TRES CACHOEIRAS,-29.4487,-49.9275'',
    ''RS,TRES COROAS,-29.5137,-50.7739'',
    ''RS,TRES DE MAIO,-27.78,-54.2357'',
    ''RS,TRES PASSOS,-27.4555,-53.9296'',
    ''RS,TRINDADE DO SUL,-27.5239,-52.8956'',
    ''RS,TRIUNFO,-29.9291,-51.7075'',
    ''RS,TUCUNDUVA,-27.6573,-54.4439'',
    ''RS,TUPANCIRETA,-29.0858,-53.8445'',
    ''RS,TUPANDI,-29.4772,-51.4174'',
    ''RS,TUPARENDI,-27.7598,-54.4814'',
    ''RS,UNISTALDA,-29.04,-55.1517'',
    ''RS,URUGUAIANA,-29.7614,-57.0853'',
    ''RS,VACARIA,-28.5079,-50.9418'',
    ''RS,VALE REAL,-29.3919,-51.2559'',
    ''RS,VALE VERDE,-29.7864,-52.1857'',
    ''RS,VANINI,-28.4758,-51.8447'',
    ''RS,VENANCIO AIRES,-29.6143,-52.1932'',
    ''RS,VERA CRUZ,-29.7184,-52.5152'',
    ''RS,VERANOPOLIS,-28.9312,-51.5516'',
    ''RS,VIADUTOS,-27.5716,-52.0211'',
    ''RS,VIAMAO,-30.0819,-51.0194'',
    ''RS,VICENTE DUTRA,-27.1607,-53.4022'',
    ''RS,VILA FLORES,-28.8598,-51.5504'',
    ''RS,VILA MARIA,-28.5359,-52.1486'',
    ''RS,VILA NOVA DO SUL,-30.3461,-53.876'',
    ''RS,VISTA ALEGRE,-27.3686,-53.4919'',
    ''RS,VISTA GAUCHA,-27.2902,-53.6974'',
    ''RS,VITORIA DAS MISSOES,-28.3516,-54.504'',
    ''SC,ABDON BATISTA,-27.6126,-51.0233'',
    ''SC,ABELARDO LUZ,-26.5716,-52.3229'',
    ''SC,AGROLANDIA,-27.4087,-49.822'',
    ''SC,AGRONOMICA,-27.2662,-49.708'',
    ''SC,AGUAS DE CHAPECO,-27.0754,-52.9808'',
    ''SC,ALFREDO WAGNER,-27.7001,-49.3273'',
    ''SC,ANTONIO CARLOS,-27.5191,-48.766'',
    ''SC,APIUNA,-27.0375,-49.3885'',
    ''SC,ARABUTA,-27.1587,-52.1423'',
    ''SC,ARAQUARI,-26.3754,-48.7188'',
    ''SC,ARARANGUA,-28.9356,-49.4918'',
    ''SC,ARMAZEM,-28.2448,-49.0215'',
    ''SC,ASCURRA,-26.9548,-49.3783'',
    ''SC,BALNEARIO BARRA DO SUL,-26.4597,-48.6123'',
    ''SC,BALNEARIO CAMBORIU,-26.9926,-48.6352'',
    ''SC,BALNEARIO GAIVOTAS,-29.155,-49.566'',
    ''SC,BALNEARIO PICARRAS,-26.7639,-48.6717'',
    ''SC,BARRA DO SUL,-26.4433,-48.6094'',
    ''SC,BARRA VELHA,-26.637,-48.6933'',
    ''SC,BELA VISTA DO TOLDO,-26.2746,-50.4664'',
    ''SC,BIGUACU,-27.496,-48.6598'',
    ''SC,BLUMENAU,-26.9155,-49.0709'',
    ''SC,BOM RETIRO,-27.799,-49.487'',
    ''SC,BOMBINHAS,-27.1382,-48.5146'',
    ''SC,BOTUVERA,-27.2007,-49.0689'',
    ''SC,BRACO DO NORTE,-28.2681,-49.1701'',
    ''SC,BRUSQUE,-27.0977,-48.9107'',
    ''SC,CACADOR,-26.7757,-51.012'',
    ''SC,CAMBORIU,-27.0241,-48.6503'',
    ''SC,CAMPO ALEGRE,-26.195,-49.2676'',
    ''SC,CAMPO BELO DO SUL,-27.8975,-50.7595'']"

definition RAW_CITIES_CSV_9 :: "string list" where
  "RAW_CITIES_CSV_9 = [
    ''SC,CAMPO ERE,-26.3931,-53.0856'',
    ''SC,CAMPOS NOVOS,-27.4002,-51.2276'',
    ''SC,CANELINHA,-27.2616,-48.7658'',
    ''SC,CANOINHAS,-26.1766,-50.395'',
    ''SC,CAPIVARI DE BAIXO,-28.4498,-48.9631'',
    ''SC,CATANDUVAS,-27.069,-51.6602'',
    ''SC,CERRO NEGRO,-27.7942,-50.8673'',
    ''SC,CHAPECO,-27.1004,-52.6152'',
    ''SC,COCAL DO SUL,-28.5986,-49.3335'',
    ''SC,CONCORDIA,-27.2335,-52.026'',
    ''SC,CORDILHEIRA ALTA,-26.9844,-52.6056'',
    ''SC,CORONEL FREITAS,-26.9057,-52.7011'',
    ''SC,CORONEL MARTINS,-26.511,-52.6694'',
    ''SC,CORUPA,-26.4246,-49.246'',
    ''SC,CRICIUMA,-28.6723,-49.3729'',
    ''SC,CURITIBANOS,-27.2824,-50.5816'',
    ''SC,DIONISIO CERQUEIRA,-26.2648,-53.6351'',
    ''SC,DONA EMA,-27.205,-49.8869'',
    ''SC,FLORIANOPOLIS,-27.5945,-48.5477'',
    ''SC,FORQUILHINHA,-28.7454,-49.4785'',
    ''SC,FRAIBURGO,-27.0233,-50.92'',
    ''SC,GALVAO,-26.4549,-52.6875'',
    ''SC,GAROPABA,-28.0275,-48.6192'',
    ''SC,GARUVA,-26.0292,-48.852'',
    ''SC,GASPAR,-26.9336,-48.9534'',
    ''SC,GOV CELSO RAMOS,-27.3236,-48.5672'',
    ''SC,GOVERNADOR CELSO RAMOS,-27.3172,-48.5576'',
    ''SC,GRAO PARA,-28.1809,-49.2252'',
    ''SC,GUABIRUBA,-27.0808,-48.9804'',
    ''SC,GUARACIABA,-26.6042,-53.5243'',
    ''SC,GUARAMIRIM,-26.4688,-49.0026'',
    ''SC,ICARA,-28.7132,-49.3087'',
    ''SC,ILHOTA,-26.9023,-48.8251'',
    ''SC,IMBITUBA,-28.2284,-48.6659'',
    ''SC,IMBUIA,-27.4908,-49.4218'',
    ''SC,INDAIAL,-26.8992,-49.2354'',
    ''SC,IPORA DO OESTE,-26.9854,-53.5355'',
    ''SC,IRINEOPOLIS,-26.242,-50.7957'',
    ''SC,ITAIOPOLIS,-26.339,-49.9092'',
    ''SC,ITAJAI,-26.9101,-48.6705'',
    ''SC,ITAPEMA,-27.0861,-48.616'',
    ''SC,ITAPIRANGA,-27.1659,-53.7166'',
    ''SC,ITAPOA,-26.1158,-48.6182'',
    ''SC,ITUPORANGA,-27.4101,-49.5963'',
    ''SC,JACINTO MACHADO,-28.9961,-49.7623'',
    ''SC,JAGUARUNA,-28.6146,-49.0296'',
    ''SC,JARAGUA DO SUL,-26.4851,-49.0713'',
    ''SC,JARDINOPOLIS,-26.7191,-52.8625'',
    ''SC,JOACABA,-27.1721,-51.5108'',
    ''SC,JOINVILLE,-26.3045,-48.8487'',
    ''SC,JOSE BOITEAUX,-26.9239,-49.8839'',
    ''SC,LAGES,-27.815,-50.3259'',
    ''SC,LAGUNA,-28.4843,-48.7772'',
    ''SC,LAURO MULLER,-28.3859,-49.4035'',
    ''SC,LEOBERTO LEAL,-27.5081,-49.2789'',
    ''SC,LONTRAS,-27.1684,-49.535'',
    ''SC,LUIS ALVES,-26.7767,-48.9767'',
    ''SC,MAFRA,-26.1159,-49.8086'',
    ''SC,MARACAJA,-28.8463,-49.4605'',
    ''SC,MARAVILHA,-26.7665,-53.1737'',
    ''SC,MASSARANDUBA,-26.6109,-49.0054'',
    ''SC,MONDAI,-27.1008,-53.4032'',
    ''SC,MONTE CARLO,-27.2239,-50.9808'',
    ''SC,MONTE CASTELO,-26.461,-50.2327'',
    ''SC,MORRO DA FUMACA,-28.6511,-49.2169'',
    ''SC,NAVEGANTES,-26.8943,-48.6546'',
    ''SC,NOVA TRENTO,-27.278,-48.9298'',
    ''SC,NOVA VENEZA,-28.6338,-49.5055'',
    ''SC,ORLEANS,-28.3487,-49.2986'',
    ''SC,OTACILIO COSTA,-27.4789,-50.1231'',
    ''SC,PAIAL,-27.2541,-52.4975'',
    ''SC,PALHOCA,-27.6455,-48.6697'',
    ''SC,PALMITOS,-27.0702,-53.1586'',
    ''SC,PAPANDUVA,-26.3777,-50.1419'',
    ''SC,PASSO DE TORRES,-29.3099,-49.722'',
    ''SC,PEDRAS GRANDES,-28.4339,-49.1949'',
    ''SC,PENHA,-26.7754,-48.6465'',
    ''SC,PERITIBA,-27.3754,-51.9018'',
    ''SC,PINHALZINHO,-26.8495,-52.9913'',
    ''SC,PIRATUBA,-27.4242,-51.7668'',
    ''SC,PLANALTO ALEGRE,-27.0704,-52.867'',
    ''SC,POMERODE,-26.7384,-49.1785'',
    ''SC,PORTO BELO,-27.1586,-48.5469'',
    ''SC,PORTO UNIAO,-26.2451,-51.0759'',
    ''SC,POUSO REDONDO,-27.2567,-49.9301'',
    ''SC,PRAIA GRANDE,-29.1918,-49.9525'',
    ''SC,PRESIDENTE GETULIO,-27.0474,-49.6246'',
    ''SC,QUILOMBO,-26.7264,-52.724'',
    ''SC,RIO DO CAMPO,-26.9452,-50.136'',
    ''SC,RIO DO OESTE,-27.1952,-49.7989'',
    ''SC,RIO DO SUL,-27.2156,-49.643'',
    ''SC,RIO FORTUNA,-28.1244,-49.1068'',
    ''SC,RIO NEGRINHO,-26.2591,-49.5177'',
    ''SC,SALETE,-26.9798,-49.9988'',
    ''SC,SALTO VELOSO,-26.903,-51.4043'']"

definition RAW_CITIES_CSV_10 :: "string list" where
  "RAW_CITIES_CSV_10 = [
    ''SC,SANTA CECILIA,-26.9592,-50.4252'',
    ''SC,SANTA ROSA DO SUL,-29.1313,-49.7109'',
    ''SC,SANTA TEREZINHA,-26.7813,-50.009'',
    ''SC,SANTO AMARO IMPERATRIZ,-27.6769,-48.7658'',
    ''SC,SAO BENTO DO SUL,-26.2495,-49.3831'',
    ''SC,SAO CARLOS,-27.0798,-53.0037'',
    ''SC,SAO FRANCISCO DO SUL,-26.2579,-48.6344'',
    ''SC,SAO JOAO BATISTA,-27.2772,-48.8474'',
    ''SC,SAO JOAO DO OESTE,-27.0984,-53.5977'',
    ''SC,SAO JOAO DO SUL,-29.2154,-49.8094'',
    ''SC,SAO JOAQUIM,-28.2887,-49.9457'',
    ''SC,SAO JOSE,-27.6136,-48.6366'',
    ''SC,SAO LOURENCO DO OESTE,-26.3557,-52.8498'',
    ''SC,SAO LUDGERO,-28.3144,-49.1806'',
    ''SC,SAO MARTINHO,-28.1609,-48.9867'',
    ''SC,SAO MIGUEL DO OESTE,-26.7242,-53.5163'',
    ''SC,SAUDADES,-26.9317,-53.0021'',
    ''SC,SCHROEDER,-26.4116,-49.074'',
    ''SC,SEARA,-27.1564,-52.299'',
    ''SC,SIDEROPOLIS,-28.5955,-49.4314'',
    ''SC,SOMBRIO,-29.108,-49.6328'',
    ''SC,SUL BRASIL,-26.7351,-52.964'',
    ''SC,TAIO,-27.121,-49.9942'',
    ''SC,TIJUCAS,-27.2354,-48.6322'',
    ''SC,TIMBE DO SUL,-28.8287,-49.842'',
    ''SC,TIMBO,-26.8246,-49.269'',
    ''SC,TRES BARRAS,-26.1056,-50.3197'',
    ''SC,TROMBUDO CENTRAL,-27.3033,-49.793'',
    ''SC,TUBARAO,-28.4713,-49.0144'',
    ''SC,TURVO,-28.9272,-49.6831'',
    ''SC,URUSSANGA,-28.518,-49.3238'',
    ''SC,VARGEAO,-26.8621,-52.1549'',
    ''SC,VIDEIRA,-27.0086,-51.1543'',
    ''SC,WITMARSUM,-26.9275,-49.7947'',
    ''SC,XANXERE,-26.8747,-52.4036'',
    ''SC,XAXIM,-26.9596,-52.5374'',
    ''SP,AGUAS DE LINDOIA,-22.4733,-46.6314'',
    ''SP,AMERICANA,-22.7374,-47.3331'',
    ''SP,ARACATUBA,-21.2076,-50.4401'',
    ''SP,ARARAS,-22.3572,-47.3842'',
    ''SP,ARUJA,-23.3965,-46.32'',
    ''SP,AVARE,-23.1067,-48.9251'',
    ''SP,BANANAL,-22.6819,-44.3281'',
    ''SP,BERTIOGA,-23.8486,-46.1396'',
    ''SP,BOTUCATU,-22.8837,-48.4437'',
    ''SP,BRODOWSKI,-20.9845,-47.6572'',
    ''SP,CACHOEIRA PAULISTA,-22.6665,-45.0154'',
    ''SP,CAMPINAS,-22.9053,-47.0659'',
    ''SP,CAMPO LIMPO PAULISTA,-23.2078,-46.7889'',
    ''SP,CARAPICUIBA,-23.5235,-46.8407'',
    ''SP,CARDOSO,-20.08,-49.9183'',
    ''SP,CRAVINHOS,-21.338,-47.7324'',
    ''SP,GUARUJA,-23.9888,-46.258'',
    ''SP,GUARULHOS,-23.4538,-46.5333'',
    ''SP,IBIUNA,-23.6596,-47.223'',
    ''SP,IRAPURU,-21.5684,-51.3472'',
    ''SP,ITANHAEM,-24.1736,-46.788'',
    ''SP,JACAREI,-23.2983,-45.9658'',
    ''SP,JAU,-22.2936,-48.5592'',
    ''SP,JUNDIAI,-23.1852,-46.8974'',
    ''SP,LINDOIA,-22.5226,-46.65'',
    ''SP,MATAO,-21.6025,-48.364'',
    ''SP,MOGI DAS CRUZES,-23.5208,-46.1854'',
    ''SP,MONTE ALEGRE DO SUL,-22.6817,-46.681'',
    ''SP,MORRO AGUDO,-20.7288,-48.0581'',
    ''SP,ORLANDIA,-20.7169,-47.8852'',
    ''SP,PALMITAL,-22.7858,-50.218'',
    ''SP,PIRASSUNUNGA,-21.996,-47.4257'',
    ''SP,PRADOPOLIS,-21.3626,-48.0679'',
    ''SP,PRAIA GRANDE,-24.0084,-46.4121'',
    ''SP,RIBEIRAO PIRES,-23.7067,-46.4058'',
    ''SP,RIBEIRAO PRETO,-21.1699,-47.8099'',
    ''SP,SANTA ADELIA,-21.2427,-48.8063'',
    ''SP,SANTA BARBARA DOESTE,-22.7553,-47.4143'',
    ''SP,SANTOS,-23.9535,-46.335'',
    ''SP,SAO JOSE DO BARREIRO,-22.6414,-44.5774'',
    ''SP,SAO JOSE DO RIO PRETO,-20.8113,-49.3758'',
    ''SP,SAO JOSE DOS CAMPOS,-23.1896,-45.8841'',
    ''SP,SAO PAULO,-23.5329,-46.6395'',
    ''SP,SAO VICENTE,-23.9574,-46.3883'',
    ''SP,SERRA AZUL,-21.3074,-47.5602'',
    ''SP,SERRA NEGRA,-22.6139,-46.7033'',
    ''SP,SERTAOZINHO,-21.1316,-47.9875'',
    ''SP,SOROCABA,-23.4969,-47.4451'',
    ''SP,SUZANO,-23.5448,-46.3112'',
    ''SP,TABOAO DA SERRA,-23.6019,-46.7526'']"

definition RAW_CITIES_CSV :: "string list" where
  "RAW_CITIES_CSV =
     RAW_CITIES_CSV_1
     @ RAW_CITIES_CSV_2
     @ RAW_CITIES_CSV_3
     @ RAW_CITIES_CSV_4
     @ RAW_CITIES_CSV_5
     @ RAW_CITIES_CSV_6
     @ RAW_CITIES_CSV_7
     @ RAW_CITIES_CSV_8
     @ RAW_CITIES_CSV_9
     @ RAW_CITIES_CSV_10"


subsection \<open>Case and accents\<close>

text \<open>
  \<open>toUpperCase\<close>, \<open>normalize("NFD")\<close> and the removal of the combining marks
  U+0300..U+036F, for text in Basic Latin and Latin-1 (code units below 256, and the
  \<open>Y\<close> with diaeresis that upper case yields). Code units outside that range are left as they
  are: text with other letters is outside the model.
\<close>

definition toUpperUnit :: "int \<Rightarrow> jsstring" where
  "toUpperUnit c =
     (if 97 \<le> c \<and> c \<le> 122 then [c - 32]
      else if 224 \<le> c \<and> c \<le> 254 \<and> c \<noteq> 247 then [c - 32]
      else if c = 255 then [376]
      else if c = 181 then [924]
      else if c = 223 then [83, 83]
      else [c])"

definition toUpperCase :: "jsstring \<Rightarrow> jsstring" where
  "toUpperCase s = concat (map toUpperUnit s)"

text \<open>
  The canonical decompositions of the capital letters of Latin-1: the base letter and the
  combining mark. A small letter decomposes like its capital, with the small base letter.
\<close>

definition nfdCapitals :: "(int \<times> int \<times> int) list" where
  "nfdCapitals =
     [(192, 65, 768), (193, 65, 769), (194, 65, 770), (195, 65, 771), (196, 65, 776),
      (197, 65, 778), (199, 67, 807), (200, 69, 768), (201, 69, 769), (202, 69, 770),
      (203, 69, 776), (204, 73, 768), (205, 73, 769), (206, 73, 770), (207, 73, 776),
      (209, 78, 771), (210, 79, 768), (211, 79, 769), (212, 79, 770), (213, 79, 771),
      (214, 79, 776), (217, 85, 768), (218, 85, 769), (219, 85, 770), (220, 85, 776),
      (221, 89, 769), (376, 89, 776)]"

definition nfdUnit :: "int \<Rightarrow> jsstring" where
  "nfdUnit c =
     (case map_of nfdCapitals c of
        Some (base, mark) \<Rightarrow> [base, mark]
      | None \<Rightarrow>
          (if c = 255 then [121, 776]
           else (case map_of nfdCapitals (c - 32) of
                   Some (base, mark) \<Rightarrow> if 224 \<le> c \<and> c \<le> 253 then [base + 32, mark] else [c]
                 | None \<Rightarrow> [c])))"

definition normalizeNFD :: "jsstring \<Rightarrow> jsstring" where
  "normalizeNFD s = concat (map nfdUnit s)"

text \<open>The removal of the combining marks, code units 768 (U+0300) to 879 (U+036F).\<close>

definition stripMarks :: "jsstring \<Rightarrow> jsstring" where
  "stripMarks s = filter (\<lambda>c. \<not> (768 \<le> c \<and> c \<le> 879)) s"

text \<open>
  \<open>s.replace(/X.*/, '')\<close> for a character X: the first X goes, with what follows it up to
  the next line terminator (the dot of a regular expression does not match one).
\<close>

definition isLineTerminator :: "int \<Rightarrow> bool" where
  "isLineTerminator c = (c = 10 \<or> c = 13 \<or> c = 8232 \<or> c = 8233)"

definition cutFrom :: "int \<Rightarrow> jsstring \<Rightarrow> jsstring" where
  "cutFrom x s =
     (case dropWhile (\<lambda>c. c \<noteq> x) s of
        [] \<Rightarrow> s
      | _ # rest \<Rightarrow> takeWhile (\<lambda>c. c \<noteq> x) s @ dropWhile (\<lambda>c. \<not> isLineTerminator c) rest)"

subsection \<open>The lookup table\<close>

text \<open>
  \<open>parseFloat\<close> of a coordinate: leading white space, an optional sign, digits, an
  optional dot and digits; \<open>NaN\<close> without a digit. The value is kept exact. An exponent and
  \<open>Infinity\<close> are not modelled; no text of the coordinate list has them.
\<close>

definition parseFloatSigned :: "jsstring \<Rightarrow> rat option" where
  "parseFloatSigned s =
     (let t = dropWhile isSpace s;
          neg = (t \<noteq> [] \<and> hd t = 45);
          u = (if t \<noteq> [] \<and> (hd t = 45 \<or> hd t = 43) then tl t else t)
      in map_option (\<lambda>v. if neg then - v else v) (parseFloat u))"

text \<open>
  One row of the list: its key \<open>CITYNAME-UF\<close> and its coordinates. Every row of the list
  has its four parts; for a row with fewer the source would stop with an error.
\<close>

definition rowKey :: "jsstring \<Rightarrow> jsstring option" where
  "rowKey row =
     (case splitOn (\<lambda>c. c = 44) row of
        uf # name # lat # lng # _ \<Rightarrow> Some (trim (toUpperCase name) @ [45] @ trim (toUpperCase uf))
      | _ \<Rightarrow> None)"

definition rowCoords :: "jsstring \<Rightarrow> rat option \<times> rat option" where
  "rowCoords row =
     (case splitOn (\<lambda>c. c = 44) row of
        uf # name # lat # lng # _ \<Rightarrow> (parseFloatSigned lat, parseFloatSigned lng)
      | _ \<Rightarrow> (None, None))"

definition cacheStep ::
  "(jsstring \<times> rat option \<times> rat option) list \<Rightarrow> jsstring
     \<Rightarrow> (jsstring \<times> rat option \<times> rat option) list" where
  "cacheStep cache row =
     (case rowKey row of
        Some key \<Rightarrow> assign cache key (rowCoords row)
      | None \<Rightarrow> cache)"

text \<open>The table is built once, on the first call, and only read afterwards.\<close>

definition cityCoordsCache :: "(jsstring \<times> rat option \<times> rat option) list" where
  "cityCoordsCache = foldl cacheStep [] (map str RAW_CITIES_CSV)"

subsection \<open>Resolution\<close>

definition cleanCityOf :: "jsstring \<Rightarrow> jsstring" where
  "cleanCityOf cityText =
     trim (cutFrom 47 (cutFrom 45 (stripMarks (normalizeNFD (trim (toUpperCase cityText))))))"

definition getCityCoords :: "jsstring \<Rightarrow> jsstring \<Rightarrow> (rat option \<times> rat option) option" where
  "getCityCoords cityText stateText =
     (let cleanCity = cleanCityOf cityText;
          cleanState = trim (toUpperCase stateText);
          exact = (if cleanState \<noteq> []
                   then map_of cityCoordsCache (cleanCity @ [45] @ cleanState) else None)
      in case exact of
           Some coords \<Rightarrow> Some coords
         | None \<Rightarrow>
             if cleanState = [] then
               (case find (\<lambda>k. startsWith k (cleanCity @ [45])) (map fst cityCoordsCache) of
                  Some possibleKey \<Rightarrow> map_of cityCoordsCache possibleKey
                | None \<Rightarrow> None)
             else None)"

subsection \<open>Aggregation by city\<close>

record GeoStats =
  city_g :: jsstring
  state_g :: jsstring
  lat :: "rat option"
  lng :: "rat option"
  revenue :: rat
  positivacao_g :: rat




text \<open>The test of the fallback search, on a row of the list.\<close>

definition rowHasPrefix :: "jsstring \<Rightarrow> jsstring \<Rightarrow> bool" where
  "rowHasPrefix p row = (case rowKey row of Some k \<Rightarrow> startsWith k p | None \<Rightarrow> False)"




section \<open>Example data\<close>

definition row0 :: SaleRecord where
  "row0 = \<lparr> id_rec = str ''ROW-0'', date = str ''2025-11-03'', region = str ''SUL'',
     division = str ''D1'', sector = str ''S1'', salesRep = str ''ANA'', channel = RC,
     supplier = str ''F1'', cnpj = str ''A'', companyName = str ''Cliente A'',
     productCode = str ''P1'', productDesc = str ''Produto 1'', amount = 100,
     quantity = 1, orderId = str ''1001'', operClass = OperVD,
     paymentTerms = str ''30-60-90'', networkName = str ''Independente'',
     city = Some (str ''SAO PAULO''), state = Some (str ''SP'') \<rparr>"

definition allOf2025 :: FilterState where
  "allOf2025 = \<lparr> division_f = [], region_f = [str ''all''], sector_f = [],
     salesRep_f = [], channel_f = [], supplier_f = [],
     startMonth = str ''2025-01'', endMonth = str ''2025-12'' \<rparr>"



text \<open>
  The example of the specification: a sale of 100 and a return of -100 of the same client
  and order; and a second client with three products.
\<close>

definition saleAndReturn :: "SaleRecord list" where
  "saleAndReturn = [row0, row0\<lparr>amount := -100, operClass := OperDV, paymentTerms := []\<rparr>]"







text \<open>
  November 2025 in two sectors: S1 with one order of 100, S2 with two orders of 300 and
  500.
\<close>

definition pivotExample :: "SaleRecord list" where
  "pivotExample =
     [row0,
      row0\<lparr>sector := str ''S2'', cnpj := str ''B'', orderId := str ''2001'', amount := 300\<rparr>,
      row0\<lparr>sector := str ''S2'', cnpj := str ''C'', orderId := str ''2002'', amount := 500\<rparr>]"

text \<open>Three rows of a sheet; the date of the second is not a date.\<close>

definition csvExample :: "csvrow list" where
  "csvExample =
     [map_of [(str ''Data'', str ''03/11/2025''), (str ''Valor'', str ''10,5'')],
      map_of [(str ''Data'', str ''hoje''), (str ''Valor'', str ''7'')],
      map_of [(str ''Data NFE'', str ''2025-11-04''), (str ''Classe Oper.'', str ''DV'')]]"



section \<open>Properties of the filter\<close>

text \<open>
  C9. The filter is idempotent: filtering the result of a filter again, with the same
  filter state, gives the same record list.
\<close>

theorem filterData_idempotent:
  "filterData (filterData data F) F = filterData data F"
  by (simp add: filterData_def)

theorem filterData_idempotent_witness:
  "filterData (filterData [row0, row0\<lparr>date := str ''2024-03-01''\<rparr>] allOf2025) allOf2025
     = filterData [row0, row0\<lparr>date := str ''2024-03-01''\<rparr>] allOf2025
   \<and> filterData [row0, row0\<lparr>date := str ''2024-03-01''\<rparr>] allOf2025 = [row0]"
  using filterData_idempotent [of "[row0, row0\<lparr>date := str ''2024-03-01''\<rparr>]" allOf2025]
  by (simp add: filterData_def matches_def inDateRange_def recordMonth_def row0_def
      allOf2025_def str_def)

section \<open>Properties of the cascading options\<close>








section \<open>Properties of the KPI calculations\<close>


lemma map_of_assign: "map_of (assign m k v) = (map_of m)(k \<mapsto> v)"
  by (induction m) (auto simp: fun_eq_iff)
























section \<open>Properties of the payment term\<close>










section \<open>Properties of the pivot table\<close>

lemma foldl_add_sum_list: "foldl (\<lambda>a b. a + b) a xs = a + sum_list xs" for a :: rat
  by (induction xs arbitrary: a) simp_all

lemma sortedRows_mset: "mset (sortedRows data dataKey) = mset (pivotRows data)"
  by (simp add: sortedRows_def)

text \<open>
  C5. In the pivot table of a metric, for every month key, the column total of a ratio
  metric (averageTicket, skuPerPdv, avgTerm, avgInstallments) is the arithmetic mean of
  the cells of that month over all displayed rows, and the column total of an additive
  metric (totalRevenue, positivacao, totalOrders) is their sum. The cell of a row that
  has no statistics for the month is 0. The displayed rows are the rows of the pivot data,
  reordered. With no row at all the total is 0.
\<close>

theorem calculateColumnTotal_spec:
  "(dataKey \<in> {Key_averageTicket, Key_skuPerPdv, Key_avgTerm, Key_avgInstallments} \<longrightarrow>
      calculateColumnTotal data dataKey mKey =
        (if sortedRows data dataKey = [] then 0
         else (\<Sum>row \<leftarrow> sortedRows data dataKey. cell dataKey mKey row)
              / of_nat (length (sortedRows data dataKey))))
   \<and> (dataKey \<in> {Key_totalRevenue, Key_positivacao, Key_totalOrders} \<longrightarrow>
      calculateColumnTotal data dataKey mKey =
        (\<Sum>row \<leftarrow> sortedRows data dataKey. cell dataKey mKey row))
   \<and> mset (sortedRows data dataKey) = mset (pivotRows data)
   \<and> (\<forall>row. map_of (months row) mKey = None \<longrightarrow> cell dataKey mKey row = 0)"
proof -
  have ratio: "isRatioMetric dataKey"
    if "dataKey \<in> {Key_averageTicket, Key_skuPerPdv, Key_avgTerm, Key_avgInstallments}"
    using that by (auto simp: isRatioMetric_def)
  have additive: "\<not> isRatioMetric dataKey"
    if "dataKey \<in> {Key_totalRevenue, Key_positivacao, Key_totalOrders}"
    using that by (auto simp: isRatioMetric_def)
  have missing: "cell dataKey mKey row = 0" if "map_of (months row) mKey = None" for row
    using that by (simp add: cell_def)
  have mean: "calculateColumnTotal data dataKey mKey =
        (if sortedRows data dataKey = [] then 0
         else (\<Sum>row \<leftarrow> sortedRows data dataKey. cell dataKey mKey row)
              / of_nat (length (sortedRows data dataKey)))"
    if "isRatioMetric dataKey"
    using that by (simp add: calculateColumnTotal_def Let_def foldl_add_sum_list)
  have sum: "calculateColumnTotal data dataKey mKey =
        (\<Sum>row \<leftarrow> sortedRows data dataKey. cell dataKey mKey row)"
    if "\<not> isRatioMetric dataKey"
    using that by (simp add: calculateColumnTotal_def Let_def foldl_add_sum_list)
  from ratio additive missing mean sum sortedRows_mset [of data dataKey] show ?thesis
    by blast
qed

theorem calculateColumnTotal_spec_witness:
  "calculateColumnTotal (getSectorPivotData pivotExample) Key_averageTicket (str ''2025-11'') = 250
   \<and> (\<Sum>row \<leftarrow> sortedRows (getSectorPivotData pivotExample) Key_averageTicket.
         cell Key_averageTicket (str ''2025-11'') row) = 500
   \<and> length (sortedRows (getSectorPivotData pivotExample) Key_averageTicket) = 2
   \<and> calculateColumnTotal (getSectorPivotData pivotExample) Key_totalRevenue (str ''2025-11'') = 900
   \<and> (\<Sum>row \<leftarrow> sortedRows (getSectorPivotData pivotExample) Key_totalRevenue.
         cell Key_totalRevenue (str ''2025-11'') row) = 900"
proof -
  have "(\<Sum>row \<leftarrow> sortedRows (getSectorPivotData pivotExample) Key_averageTicket.
          cell Key_averageTicket (str ''2025-11'') row) = 500"
    and "length (sortedRows (getSectorPivotData pivotExample) Key_averageTicket) = 2"
    and "(\<Sum>row \<leftarrow> sortedRows (getSectorPivotData pivotExample) Key_totalRevenue.
          cell Key_totalRevenue (str ''2025-11'') row) = 900"
    by code_simp+
  then show ?thesis
    using calculateColumnTotal_spec
        [of Key_averageTicket "getSectorPivotData pivotExample" "str ''2025-11''"]
      calculateColumnTotal_spec
        [of Key_totalRevenue "getSectorPivotData pivotExample" "str ''2025-11''"]
    by auto
qed

section \<open>Properties of the normalizer\<close>

lemma parseRow_None: "parseRow index row = None \<longleftrightarrow> parseDate (dateStr row) = []"
  by (simp add: parseRow_def Let_def)

lemma parseRow_Some:
  "parseRow index row = Some r \<Longrightarrow>
     date r = parseDate (dateStr row) \<and> date r \<noteq> [] \<and> id_rec r = str ''ROW-'' @ showNat index"
  by (auto simp: parseRow_def Let_def split: if_splits)

lemma parseRows_length:
  "length (parseRows index rows) = length (filter (\<lambda>row. parseDate (dateStr row) \<noteq> []) rows)"
proof (induction rows arbitrary: index)
  case Nil
  show ?case by simp
next
  case (Cons row rows)
  show ?case
  proof (cases "parseRow index row")
    case None
    moreover from None have "parseDate (dateStr row) = []"
      by (simp add: parseRow_None)
    ultimately show ?thesis
      using Cons [of "Suc index"] by simp
  next
    case (Some r)
    moreover from Some have "parseDate (dateStr row) \<noteq> []"
      using parseRow_None [of index row] by simp
    ultimately show ?thesis
      using Cons [of "Suc index"] by simp
  qed
qed

lemma parseRows_origin:
  "r \<in> set (parseRows index rows) \<Longrightarrow>
     date r \<noteq> [] \<and> (\<exists>i < length rows. id_rec r = str ''ROW-'' @ showNat (index + i)
                        \<and> date r = parseDate (dateStr (rows ! i)))"
proof (induction rows arbitrary: index)
  case Nil
  then show ?case by simp
next
  case (Cons row rows)
  show ?case
  proof (cases "parseRow index row = Some r")
    case True
    have "date r \<noteq> []" "id_rec r = str ''ROW-'' @ showNat (index + 0)"
      "date r = parseDate (dateStr ((row # rows) ! 0))" "0 < length (row # rows)"
      using parseRow_Some [OF True] by auto
    then show ?thesis by blast
  next
    case False
    with Cons.prems have "r \<in> set (parseRows (Suc index) rows)"
      by (auto split: option.splits)
    from Cons.IH [OF this] obtain i where "date r \<noteq> []" "i < length rows"
      "id_rec r = str ''ROW-'' @ showNat (Suc index + i)"
      "date r = parseDate (dateStr (rows ! i))"
      by blast
    then have "Suc i < length (row # rows)"
      "id_rec r = str ''ROW-'' @ showNat (index + Suc i)"
      "date r = parseDate (dateStr ((row # rows) ! Suc i))"
      by simp_all
    with \<open>date r \<noteq> []\<close> show ?thesis by blast
  qed
qed

lemma length10:
  "length s = 10 \<Longrightarrow> \<exists>a b c d e f g h i j. s = [a, b, c, d, e, f, g, h, i, j]"
  by (simp add: numeral_eq_Suc length_Suc_conv) metis

lemma split_dmy:
  assumes "isDMYShape s"
  shows "splitOn (\<lambda>c. c = 47) s = [take 2 s, take 2 (drop 3 s), drop 6 s]"
    and "\<not> isIsoShape s" and "s \<noteq> []"
    and "isIsoShape (drop 6 s @ [45] @ take 2 (drop 3 s) @ [45] @ take 2 s)"
proof -
  from assms obtain a b c d e f g h i j where s: "s = [a, b, c, d, e, f, g, h, i, j]"
    using length10 [of s] by (auto simp: isDMYShape_def)
  from assms show "splitOn (\<lambda>c. c = 47) s = [take 2 s, take 2 (drop 3 s), drop 6 s]"
    unfolding s by (auto simp: isDMYShape_def isDigit_def)
  from assms show "\<not> isIsoShape s"
    unfolding s by (auto simp: isDMYShape_def isIsoShape_def isDigit_def)
  show "s \<noteq> []" by (simp add: s)
  from assms show "isIsoShape (drop 6 s @ [45] @ take 2 (drop 3 s) @ [45] @ take 2 s)"
    unfolding s by (auto simp: isDMYShape_def isIsoShape_def isDigit_def)
qed

text \<open>
  C6, as stated, does not hold. A text that is neither of the shape YYYY-MM-DD nor of the
  shape DD/MM/YYYY is not always mapped to the empty string: with two slashes it is
  rewritten, whatever stands between them, and its row is kept.
\<close>

theorem parseDate_shapes_counterexample:
  "\<not> isIsoShape (str ''a/b/c'') \<and> \<not> isDMYShape (str ''a/b/c'')
   \<and> parseDate (str ''a/b/c'') = str ''c-b-a''
   \<and> map date (parseRows 0 [map_of [(str ''Data'', str ''a/b/c'')]]) = [str ''c-b-a'']
   \<and> \<not> isIsoShape (str ''3/11/2025'') \<and> \<not> isDMYShape (str ''3/11/2025'')
   \<and> parseDate (str ''3/11/2025'') = str ''2025-11-3''"
  by code_simp

text \<open>
  C6 (amended). For every raw date string, normalization returns a string of the shape
  YYYY-MM-DD unchanged and rewrites DD/MM/YYYY to YYYY-MM-DD; every other non-empty string
  that the slashes split into exactly three parts a/b/c, whatever the parts are, is
  rewritten to c-b-a; every remaining string is mapped to the empty string. Every input
  row whose normalized date is empty is dropped from the output of the normalizer: the
  loop makes no record for such a row, the output has one record for each row with a
  non-empty normalized date, and each record has the number of its row and the normalized
  date of that row.
\<close>

theorem parseDate_parseCSV_spec:
  assumes "\<And>xs. mset (sortByDate xs) = mset xs"
  shows "(isIsoShape s \<longrightarrow> parseDate s = s)
   \<and> (isDMYShape s \<longrightarrow>
        parseDate s = drop 6 s @ [45] @ take 2 (drop 3 s) @ [45] @ take 2 s
        \<and> isIsoShape (parseDate s))
   \<and> (s \<noteq> [] \<and> \<not> isIsoShape s \<longrightarrow>
        (\<forall>p0 p1 p2. splitOn (\<lambda>c. c = 47) s = [p0, p1, p2]
           \<longrightarrow> parseDate s = p2 @ [45] @ p1 @ [45] @ p0))
   \<and> (\<not> isIsoShape s \<and> length (splitOn (\<lambda>c. c = 47) s) \<noteq> 3 \<longrightarrow> parseDate s = [])
   \<and> length (parseCSV sortByDate rows)
       = length (filter (\<lambda>row. parseDate (dateStr row) \<noteq> []) rows)
   \<and> (\<forall>r \<in> set (parseCSV sortByDate rows).
         date r \<noteq> [] \<and> (\<exists>i < length rows. id_rec r = str ''ROW-'' @ showNat i
                            \<and> date r = parseDate (dateStr (rows ! i))))
   \<and> (parseDate (dateStr row) = [] \<longrightarrow> parseRow index row = None)"
proof -
  have iso: "parseDate s = s" if "isIsoShape s"
    using that by (auto simp: parseDate_def isIsoShape_def)
  have dmy: "parseDate s = drop 6 s @ [45] @ take 2 (drop 3 s) @ [45] @ take 2 s
             \<and> isIsoShape (parseDate s)" if "isDMYShape s"
    using split_dmy [OF that] by (simp add: parseDate_def)
  have three: "parseDate s = p2 @ [45] @ p1 @ [45] @ p0"
    if "s \<noteq> []" "\<not> isIsoShape s" "splitOn (\<lambda>c. c = 47) s = [p0, p1, p2]" for p0 p1 p2
    using that by (simp add: parseDate_def)
  have other: "parseDate s = []"
    if "\<not> isIsoShape s" "length (splitOn (\<lambda>c. c = 47) s) \<noteq> 3"
    using that by (auto simp: parseDate_def split: list.splits)
  have len: "length (parseCSV sortByDate rows)
               = length (filter (\<lambda>row. parseDate (dateStr row) \<noteq> []) rows)"
    using assms [of "parseRows 0 rows"] parseRows_length [of 0 rows]
    by (metis parseCSV_def size_mset)
  have "set (parseCSV sortByDate rows) = set (parseRows 0 rows)"
    using assms [of "parseRows 0 rows"] by (metis parseCSV_def set_mset_mset)
  then have origin: "date r \<noteq> [] \<and> (\<exists>i < length rows. id_rec r = str ''ROW-'' @ showNat i
                            \<and> date r = parseDate (dateStr (rows ! i)))"
    if "r \<in> set (parseCSV sortByDate rows)" for r
    using that parseRows_origin [of r 0 rows] by simp
  have dropped: "parseRow index row = None" if "parseDate (dateStr row) = []"
    using that by (simp add: parseRow_None)
  from iso dmy three other len origin dropped show ?thesis
    by blast
qed

theorem parseDate_parseCSV_spec_witness:
  "isDMYShape (str ''03/11/2025'') \<and> parseDate (str ''03/11/2025'') = str ''2025-11-03''
   \<and> isIsoShape (str ''2025-11-04'') \<and> parseDate (str ''2025-11-04'') = str ''2025-11-04''
   \<and> \<not> isIsoShape (str ''hoje'') \<and> length (splitOn (\<lambda>c. c = 47) (str ''hoje'')) \<noteq> 3
   \<and> parseDate (str ''hoje'') = []
   \<and> length (filter (\<lambda>row. parseDate (dateStr row) \<noteq> []) csvExample) = 2
   \<and> length (parseCSV (sort_key date) csvExample) = 2
   \<and> map id_rec (parseCSV (sort_key date) csvExample) = [str ''ROW-0'', str ''ROW-2'']
   \<and> parseDate (dateStr (csvExample ! 1)) = [] \<and> parseRow 1 (csvExample ! 1) = None"
proof -
  have perm: "\<And>xs :: SaleRecord list. mset (sort_key date xs) = mset xs"
    by simp
  have "isDMYShape (str ''03/11/2025'')"
    and "drop 6 (str ''03/11/2025'') @ [45] @ take 2 (drop 3 (str ''03/11/2025'')) @ [45]
           @ take 2 (str ''03/11/2025'') = str ''2025-11-03''"
    and "isIsoShape (str ''2025-11-04'')"
    and "\<not> isIsoShape (str ''hoje'')" "length (splitOn (\<lambda>c. c = 47) (str ''hoje'')) \<noteq> 3"
    and "length (filter (\<lambda>row. parseDate (dateStr row) \<noteq> []) csvExample) = 2"
    and "map id_rec (parseCSV (sort_key date) csvExample) = [str ''ROW-0'', str ''ROW-2'']"
    and "parseDate (dateStr (csvExample ! 1)) = []"
    by code_simp+
  then show ?thesis
    using parseDate_parseCSV_spec [OF perm, of "str ''03/11/2025''" csvExample]
      parseDate_parseCSV_spec [OF perm, of "str ''2025-11-04''" csvExample]
      parseDate_parseCSV_spec [OF perm, of "str ''hoje''" csvExample "csvExample ! 1" 1]
    by simp
qed

section \<open>Properties of the geo resolution\<close>

lemma find_holds: "find P xs = Some x \<Longrightarrow> P x"
  by (auto simp: find_Some_iff)

lemma find_append_case:
  "find P (xs @ ys) = (case find P xs of Some x \<Rightarrow> Some x | None \<Rightarrow> find P ys)"
  by (induction xs) auto

lemma keys_assign_list:
  "map fst (assign m k v) = (if k \<in> fst ` set m then map fst m else map fst m @ [k])"
  by (induction m) force+

lemma cacheStep_snoc: "foldl cacheStep c (rs @ [r]) = cacheStep (foldl cacheStep c rs) r"
  by simp

lemma cacheStep_Some: "rowKey r = Some k \<Longrightarrow> cacheStep m r = assign m k (rowCoords r)"
  by (simp add: cacheStep_def)

lemma cacheStep_None: "rowKey r = None \<Longrightarrow> cacheStep m r = m"
  by (simp add: cacheStep_def)

lemma cache_lookup:
  "map_of (foldl cacheStep c rs) k =
     (case find (\<lambda>row. rowKey row = Some k) (rev rs) of
        Some row \<Rightarrow> Some (rowCoords row)
      | None \<Rightarrow> map_of c k)"
proof (induction rs rule: rev_induct)
  case Nil
  show ?case by simp
next
  case (snoc r rs)
  then show ?case
    by (cases "rowKey r") (auto simp: cacheStep_Some cacheStep_None map_of_assign)
qed

lemma cache_first_key:
  "find (\<lambda>k. startsWith k p) (map fst (foldl cacheStep [] rs)) =
     (case find (rowHasPrefix p) rs of Some row \<Rightarrow> rowKey row | None \<Rightarrow> None)"
proof (induction rs rule: rev_induct)
  case Nil
  show ?case by simp
next
  case (snoc r rs)
  let ?m = "foldl cacheStep [] rs"
  show ?case
  proof (cases "rowKey r")
    case None
    then have "\<not> rowHasPrefix p r" by (simp add: rowHasPrefix_def)
    with None snoc show ?thesis
      by (simp add: cacheStep_None find_append_case split: option.splits)
  next
    case (Some k)
    then have q: "rowHasPrefix p r \<longleftrightarrow> startsWith k p" by (simp add: rowHasPrefix_def)
    show ?thesis
    proof (cases "find (rowHasPrefix p) rs")
      case found: (Some row)
      have "rowHasPrefix p row"
        by (rule find_holds [OF found])
      then obtain k1 where k1: "rowKey row = Some k1"
        unfolding rowHasPrefix_def by (cases "rowKey row") simp_all
      from snoc found k1 have "find (\<lambda>k. startsWith k p) (map fst ?m) = Some k1"
        by simp
      with Some found k1 show ?thesis
        by (simp add: cacheStep_Some keys_assign_list find_append_case)
    next
      case notfound: None
      with snoc have none: "find (\<lambda>k. startsWith k p) (map fst ?m) = None" by simp
      show ?thesis
      proof (cases "k \<in> fst ` set ?m")
        case True
        with none have "\<not> startsWith k p"
          by (auto simp: find_None_iff)
        with Some notfound none True q show ?thesis
          by (simp add: cacheStep_Some keys_assign_list find_append_case)
      next
        case False
        with Some notfound none q show ?thesis
          by (simp add: cacheStep_Some keys_assign_list find_append_case)
      qed
    qed
  qed
qed


lemma sao_paulo_not_in_parts:
  "find (rowHasPrefix (str ''SAO PAULO-'')) (map str RAW_CITIES_CSV_1) = None"
  "find (rowHasPrefix (str ''SAO PAULO-'')) (map str RAW_CITIES_CSV_2) = None"
  "find (rowHasPrefix (str ''SAO PAULO-'')) (map str RAW_CITIES_CSV_3) = None"
  "find (rowHasPrefix (str ''SAO PAULO-'')) (map str RAW_CITIES_CSV_4) = None"
  "find (rowHasPrefix (str ''SAO PAULO-'')) (map str RAW_CITIES_CSV_5) = None"
  "find (rowHasPrefix (str ''SAO PAULO-'')) (map str RAW_CITIES_CSV_6) = None"
  "find (rowHasPrefix (str ''SAO PAULO-'')) (map str RAW_CITIES_CSV_7) = None"
  "find (rowHasPrefix (str ''SAO PAULO-'')) (map str RAW_CITIES_CSV_8) = None"
  "find (rowHasPrefix (str ''SAO PAULO-'')) (map str RAW_CITIES_CSV_9) = None"
  by code_simp+

lemma sao_paulo_in_last_part:
  "find (rowHasPrefix (str ''SAO PAULO-'')) (map str RAW_CITIES_CSV_10)
     = Some (str ''SP,SAO PAULO,-23.5329,-46.6395'')"
  "find (\<lambda>row. rowKey row = Some (str ''SAO PAULO-SP'')) (rev (map str RAW_CITIES_CSV_10))
     = Some (str ''SP,SAO PAULO,-23.5329,-46.6395'')"
  by code_simp+

lemma sao_paulo_row:
  "rowKey (str ''SP,SAO PAULO,-23.5329,-46.6395'') = Some (str ''SAO PAULO-SP'')"
  "rowCoords (str ''SP,SAO PAULO,-23.5329,-46.6395'') = (Some (- 23.5329), Some (- 46.6395))"
  by code_simp+


lemma first_sao_paulo_key:
  "find (\<lambda>k. startsWith k (str ''SAO PAULO-'')) (map fst cityCoordsCache)
     = Some (str ''SAO PAULO-SP'')"
  by (simp only: cityCoordsCache_def RAW_CITIES_CSV_def cache_first_key map_append
      find_append_case sao_paulo_not_in_parts sao_paulo_in_last_part sao_paulo_row
      option.case)

lemma sao_paulo_sp_lookup:
  "map_of cityCoordsCache (str ''SAO PAULO-SP'') = Some (Some (- 23.5329), Some (- 46.6395))"
  by (simp only: cityCoordsCache_def RAW_CITIES_CSV_def cache_lookup map_append rev_append
      find_append_case sao_paulo_in_last_part sao_paulo_row option.case)

lemma sao_paulo_texts:
  "trim (toUpperCase []) = []"
  "str ''SAO PAULO'' @ [45] = str ''SAO PAULO-''"
  "str ''SAO PAULO'' @ [45] @ str ''SP'' = str ''SAO PAULO-SP''"
  "str ''SP'' \<noteq> []"
  by code_simp+

lemma getCityCoords_blank_state:
  assumes "cleanCityOf c = str ''SAO PAULO''"
  shows "getCityCoords c [] = Some (Some (- 23.5329), Some (- 46.6395))"
  unfolding getCityCoords_def Let_def assms
  by (simp only: sao_paulo_texts first_sao_paulo_key sao_paulo_sp_lookup option.case
      if_True if_False simp_thms)

lemma getCityCoords_state_sp:
  assumes "cleanCityOf c = str ''SAO PAULO''" and "trim (toUpperCase s) = str ''SP''"
  shows "getCityCoords c s = Some (Some (- 23.5329), Some (- 46.6395))"
  unfolding getCityCoords_def Let_def assms
  by (simp only: sao_paulo_texts sao_paulo_sp_lookup option.case if_True if_False simp_thms)

lemma clean_texts:
  "cleanCityOf (str ''S'' @ [227] @ str ''o Paulo'') = str ''SAO PAULO''"
  "cleanCityOf (str ''SAO PAULO'') = str ''SAO PAULO''"
  "trim (toUpperCase (str ''SP'')) = str ''SP''"
  "cleanCityOf (str ''s'' @ [227] @ str ''o paulo'') = str ''SAO PAULO''"
  "trim (toUpperCase (str '' sp'')) = str ''SP''"
  by code_simp+

text \<open>
  C8. Geo resolution does not depend on case or accents, and the state is optional: the
  city "Sao Paulo" (written with the letter a with tilde, code unit 227) with a blank state
  resolves to the same coordinates as the city "SAO PAULO" with the state "SP". With the
  blank state the search falls back to the first key of the table that starts with the
  normalized city name and a hyphen, which is the key of Sao Paulo in SP. The same
  coordinates come out for the city in small letters with the state " sp".
\<close>

theorem getCityCoords_sao_paulo:
  "getCityCoords (str ''S'' @ [227] @ str ''o Paulo'') []
     = getCityCoords (str ''SAO PAULO'') (str ''SP'')
   \<and> getCityCoords (str ''SAO PAULO'') (str ''SP'') = Some (Some (- 23.5329), Some (- 46.6395))
   \<and> find (\<lambda>k. startsWith k (cleanCityOf (str ''S'' @ [227] @ str ''o Paulo'') @ [45]))
        (map fst cityCoordsCache) = Some (str ''SAO PAULO-SP'')
   \<and> map_of cityCoordsCache (str ''SAO PAULO-SP'') = Some (Some (- 23.5329), Some (- 46.6395))
   \<and> getCityCoords (str ''s'' @ [227] @ str ''o paulo'') (str '' sp'')
       = getCityCoords (str ''SAO PAULO'') (str ''SP'')"
  by (simp only: getCityCoords_blank_state [OF clean_texts(1)]
      getCityCoords_state_sp [OF clean_texts(2) clean_texts(3)]
      getCityCoords_state_sp [OF clean_texts(4) clean_texts(5)] clean_texts sao_paulo_texts
      first_sao_paulo_key sao_paulo_sp_lookup simp_thms)









end
